theory Spec2Isabelle
  imports Complex_Main "HOL-Library.Word" "HOL-Library.Sublist"
begin

unbundle bit_operations_syntax

section \<open>Machine integers and host values\<close>

text \<open>
  C \<open>int\<close> and \<open>unsigned int\<close> are 32 bits wide on every platform the engine is built
  for. Values are kept as mathematical integers; \<open>u32\<close> and \<open>s32\<close> are the conversions
  to \<open>unsigned int\<close> and \<open>int\<close> (wrap-around modulo \<open>2 ^ 32\<close>), written out wherever the
  source computes or converts. Bit sets that the source declares \<open>unsigned int\<close> are
  \<open>32 word\<close>. Finite \<open>float\<close> and \<open>double\<close> values are rationals; where the source
  computes with values that are not small integers or the fixed framerates, the
  rounding of each operation is written out (see the section on floating point values).
\<close>

definition u32 :: "int \<Rightarrow> int" where
  "u32 x = x mod 2 ^ 32"

definition s32 :: "int \<Rightarrow> int" where
  "s32 x = (let y = x mod 2 ^ 32 in if y < 2 ^ 31 then y else y - 2 ^ 32)"

definition trunc_rat :: "rat \<Rightarrow> int" where
  \<comment> \<open>the C conversion of a floating value to an integer: towards zero\<close>
  "trunc_rat x = (if 0 \<le> x then \<lfloor>x\<rfloor> else \<lceil>x\<rceil>)"

lemma floor_rat_divide_numeral [simp]:
  "\<lfloor>numeral a / numeral b :: rat\<rfloor> = numeral a div numeral b"
  by (metis floor_divide_of_int_eq of_int_numeral)

lemma floor_rat_minus_divide_numeral [simp]:
  "\<lfloor>- (numeral a / numeral b) :: rat\<rfloor> = - numeral a div numeral b"
  by (metis divide_minus_left floor_divide_of_int_eq of_int_neg_numeral of_int_numeral)

lemma ceiling_rat_minus_divide_numeral [simp]:
  "\<lceil>- (numeral a / numeral b) :: rat\<rceil> = - (numeral a div numeral b)"
  by (simp add: ceiling_def)

lemma floor_rat_one_divide_numeral [simp]:
  "\<lfloor>1 / numeral b :: rat\<rfloor> = 1 div numeral b"
  by (metis floor_divide_of_int_eq of_int_1 of_int_numeral)

lemma floor_rat_minus_one_divide_numeral [simp]:
  "\<lfloor>- (1 / numeral b) :: rat\<rfloor> = - 1 div numeral b"
  by (metis divide_minus_left floor_divide_of_int_eq of_int_1 of_int_minus of_int_numeral)

definition DBL_MAX :: rat where
  "DBL_MAX = (2 ^ 1024 - 2 ^ 971)"

subsection \<open>Floating point values\<close>

text \<open>
  \<open>float\<close> and \<open>double\<close> are the IEEE 754 formats of 24 and 53 significant bits, and an
  expression is evaluated in the format of its type. An operation of the source is the
  exact operation on rationals followed by the rounding to the format of the result: to
  the nearest value, a tie to the value with the even significand, with gradual
  underflow below the smallest normal exponent (-126 and -1022). Results beyond the
  largest finite value are not cut off: where the model rounds, such a result either
  cannot arise or ends in the same undefined conversion as the infinity of the code
  (see \<open>f7_num_packets\<close>).
\<close>

text \<open>The number of binary digits of a positive integer.\<close>

function bit_len :: "int \<Rightarrow> int" where
  "bit_len n = (if n \<le> 0 then 0 else 1 + bit_len (n div 2))"
  by pat_completeness auto
termination
  by (relation "measure nat") auto

declare bit_len.simps [simp del]

definition pow2 :: "int \<Rightarrow> rat" where
  "pow2 e = (if 0 \<le> e then 2 ^ nat e else 1 / 2 ^ nat (- e))"

text \<open>The binary exponent of a positive value \<open>x\<close>: the \<open>e\<close> with \<open>2 ^ e \<le> x < 2 ^ (e + 1)\<close>.\<close>

definition floor_log2 :: "rat \<Rightarrow> int" where
  "floor_log2 x =
     (if 1 \<le> x then bit_len \<lfloor>x\<rfloor> - 1 else - bit_len (- \<lfloor>- (1 / x)\<rfloor> - 1))"

definition round_half_even :: "rat \<Rightarrow> int" where
  "round_half_even m =
     (let f = \<lfloor>m\<rfloor>; r = m - of_int f
      in if r < 1 / 2 then f else if 1 / 2 < r then f + 1 else if even f then f else f + 1)"

text \<open>The rounding to \<open>p\<close> significant bits, the smallest normal exponent being \<open>emin\<close>.\<close>

definition fp_round :: "nat \<Rightarrow> int \<Rightarrow> rat \<Rightarrow> rat" where
  "fp_round p emin x =
     (if x = 0 then 0
      else
        (let e = max (floor_log2 \<bar>x\<bar>) emin;
             q = pow2 (e - int p + 1)
         in sgn x * of_int (round_half_even (\<bar>x\<bar> / q)) * q))"

definition to_float :: "rat \<Rightarrow> rat" where
  "to_float = fp_round 24 (- 126)"

definition to_double :: "rat \<Rightarrow> rat" where
  "to_double = fp_round 53 (- 1022)"

text \<open>
  \<open>floor_log2\<close> is the binary exponent, and scaling by a power of two shifts it; the
  second fact lets a value far from 1 be brought near 1 before its digits are counted.
\<close>

lemma bit_len_nonneg: "0 \<le> bit_len n"
proof (induction n rule: bit_len.induct)
  case (1 n)
  then show ?case by (subst bit_len.simps) auto
qed

lemma bit_len_pos: "0 < n \<Longrightarrow> 0 < bit_len n"
  using bit_len_nonneg [of "n div 2"] by (subst bit_len.simps) simp

lemma bit_len_bounds:
  "0 < n \<Longrightarrow> 2 ^ nat (bit_len n - 1) \<le> n \<and> n < 2 ^ nat (bit_len n)"
proof (induction n rule: bit_len.induct)
  case (1 n)
  have bl: "bit_len n = 1 + bit_len (n div 2)"
    using "1.prems" by (subst bit_len.simps) simp
  show ?case
  proof (cases "n div 2 = 0")
    case True
    with "1.prems" have "n = 1" by presburger
    then show ?thesis by (simp add: bit_len.simps)
  next
    case False
    with "1.prems" have h: "0 < n div 2" by presburger
    define b where "b = bit_len (n div 2)"
    from "1.IH" h "1.prems" have IH: "2 ^ nat (b - 1) \<le> n div 2" "n div 2 < 2 ^ nat b"
      by (simp_all add: b_def)
    from bit_len_pos [OF h] have bpos: "0 < b" by (simp add: b_def)
    then have nb: "nat b = Suc (nat (b - 1))" by simp
    have "(2::int) ^ nat b = 2 * 2 ^ nat (b - 1)" by (subst nb) simp
    also have "\<dots> \<le> 2 * (n div 2)" using IH(1) by simp
    also have "\<dots> \<le> n" by presburger
    finally have lo: "2 ^ nat b \<le> n" .
    have "n < 2 * (n div 2 + 1)" by presburger
    also have "\<dots> \<le> 2 * 2 ^ nat b" using IH(2) by simp
    also have "\<dots> = 2 ^ nat (1 + b)" using bpos by (simp add: nat_add_distrib)
    finally have hi: "n < 2 ^ nat (1 + b)" .
    from lo hi show ?thesis by (simp add: bl b_def [symmetric])
  qed
qed

lemma pow2_powi: "pow2 e = 2 powi e"
  by (simp add: pow2_def power_int_def field_simps)

lemma floor_log2_bounds:
  assumes "0 < x"
  shows "pow2 (floor_log2 x) \<le> x \<and> x < pow2 (floor_log2 x + 1)"
proof (cases "1 \<le> x")
  case True
  define n where "n = \<lfloor>x\<rfloor>"
  from True have npos: "0 < n" by (simp add: n_def)
  note b = bit_len_bounds [OF npos]
  from bit_len_pos [OF npos] have blp: "0 < bit_len n" .
  have e: "floor_log2 x = bit_len n - 1" using True by (simp add: floor_log2_def n_def)
  have "pow2 (bit_len n - 1) = of_int (2 ^ nat (bit_len n - 1))"
    using blp by (simp add: pow2_def)
  also have "\<dots> \<le> of_int n" using b by (simp only: of_int_le_iff)
  also have "\<dots> \<le> x" by (simp add: n_def)
  finally have lo: "pow2 (bit_len n - 1) \<le> x" .
  have "x < of_int (n + 1)" using floor_correct [of x] by (simp add: n_def)
  also have "\<dots> \<le> of_int (2 ^ nat (bit_len n))" using b by (simp only: of_int_le_iff) simp
  also have "\<dots> = pow2 (bit_len n)" using blp by (simp add: pow2_def)
  finally have hi: "x < pow2 (bit_len n)" .
  from lo hi show ?thesis by (simp add: e)
next
  case False
  define y where "y = 1 / x"
  from False assms have y1: "1 < y" by (simp add: y_def)
  define n where "n = \<lceil>y\<rceil>"
  have neq: "n = - \<lfloor>- (1 / x)\<rfloor>" by (simp add: n_def y_def ceiling_def)
  from y1 have n2: "2 \<le> n" by (simp add: n_def)
  then have n1pos: "0 < n - 1" by simp
  note b = bit_len_bounds [OF n1pos]
  from bit_len_pos [OF n1pos] have kpos: "0 < bit_len (n - 1)" .
  define k where "k = bit_len (n - 1)"
  have e: "floor_log2 x = - k" using False by (simp add: floor_log2_def neq [symmetric] k_def)
  have "y \<le> of_int n" by (simp add: n_def)
  also have "of_int n \<le> (of_int (2 ^ nat k) :: rat)"
    using b by (simp only: of_int_le_iff k_def) simp
  finally have yle: "y \<le> 2 ^ nat k" by simp
  have "(of_int (2 ^ nat (k - 1)) :: rat) \<le> of_int (n - 1)"
    using b by (simp only: of_int_le_iff k_def)
  also have "of_int (n - 1) < y" by (simp add: n_def) linarith
  finally have ygt: "2 ^ nat (k - 1) < y" by simp
  have kp: "0 < k" using kpos by (simp add: k_def)
  have lo: "pow2 (- k) \<le> x"
  proof -
    have "1 / 2 ^ nat k \<le> 1 / y" using yle y1 by (intro divide_left_mono) simp_all
    then show ?thesis using kp assms by (simp add: pow2_def y_def)
  qed
  have hi: "x < pow2 (- k + 1)"
  proof -
    have ypos: "0 < y" using y1 by simp
    have "1 / y < 1 / 2 ^ nat (k - 1)" using ygt ypos by (intro divide_strict_left_mono) simp_all
    moreover have "pow2 (- k + 1) = 1 / 2 ^ nat (k - 1)"
      using kp by (cases "k = 1") (simp_all add: pow2_def)
    ultimately show ?thesis using assms by (simp add: y_def)
  qed
  from lo hi show ?thesis by (simp add: e)
qed

lemma pow2_pos: "0 < pow2 e"
  by (simp add: pow2_def)

lemma pow2_mono: "a \<le> b \<Longrightarrow> pow2 a \<le> pow2 b"
  by (simp add: pow2_powi power_int_increasing)

lemma pow2_add: "pow2 (a + b) = pow2 a * pow2 b"
  by (simp add: pow2_powi power_int_add)

lemma floor_log2_unique:
  assumes "pow2 e \<le> x" "x < pow2 (e + 1)"
  shows "floor_log2 x = e"
proof -
  have xpos: "0 < x" using assms(1) pow2_pos [of e] by linarith
  note b = floor_log2_bounds [OF xpos]
  have "floor_log2 x < e + 1"
  proof (rule ccontr)
    assume "\<not> floor_log2 x < e + 1"
    then have "pow2 (e + 1) \<le> pow2 (floor_log2 x)" by (intro pow2_mono) simp
    with b assms show False by linarith
  qed
  moreover have "e < floor_log2 x + 1"
  proof (rule ccontr)
    assume "\<not> e < floor_log2 x + 1"
    then have "pow2 (floor_log2 x + 1) \<le> pow2 e" by (intro pow2_mono) simp
    with b assms show False by linarith
  qed
  ultimately show ?thesis by simp
qed

text \<open>Scaling by a power of two shifts the exponent.\<close>

lemma floor_log2_scale:
  assumes "0 < x"
  shows "floor_log2 x = floor_log2 (x * pow2 k) - k"
proof -
  have pos: "0 < x * pow2 k" using assms pow2_pos [of k] by simp
  note b = floor_log2_bounds [OF pos]
  define e where "e = floor_log2 (x * pow2 k)"
  have inv: "pow2 k * pow2 (- k) = 1" using pow2_add [of k "- k"] by (simp add: pow2_def)
  have x: "x = x * pow2 k * pow2 (- k)" using inv by (simp add: mult.assoc)
  have "pow2 (e - k) = pow2 e * pow2 (- k)" using pow2_add [of e "- k"] by simp
  also have "\<dots> \<le> x * pow2 k * pow2 (- k)"
    using b pow2_pos [of "- k"] by (simp add: e_def)
  finally have lo: "pow2 (e - k) \<le> x" using x by simp
  have "x * pow2 k * pow2 (- k) < pow2 (e + 1) * pow2 (- k)"
    using b pow2_pos [of "- k"] by (simp add: e_def)
  also have "\<dots> = pow2 (e - k + 1)" using pow2_add [of "e + 1" "- k"] by (simp add: algebra_simps)
  finally have hi: "x < pow2 (e - k + 1)" using x by simp
  from floor_log2_unique [OF lo hi] show ?thesis by (simp add: e_def)
qed

lemma floor_log2_down:
  "2 ^ 64 \<le> x \<Longrightarrow> x < 2 ^ 512 \<Longrightarrow> floor_log2 x = 64 + floor_log2 (x / 2 ^ 64)"
  using floor_log2_scale [of x "- 64"] by (simp add: pow2_def)

lemma floor_log2_up:
  "1 / 2 ^ 512 \<le> x \<Longrightarrow> x < 1 / 2 ^ 64 \<Longrightarrow> floor_log2 x = floor_log2 (x * 2 ^ 64) - 64"
  using floor_log2_scale [of x 64] by (simp add: pow2_def)

lemma floor_log2_down_512:
  "2 ^ 512 \<le> x \<Longrightarrow> floor_log2 x = 512 + floor_log2 (x / 2 ^ 512)"
  using floor_log2_scale [of x "- 512"] by (simp add: pow2_def)

lemma floor_log2_up_512:
  "0 < x \<Longrightarrow> x < 1 / 2 ^ 512 \<Longrightarrow> floor_log2 x = floor_log2 (x * 2 ^ 512) - 512"
  using floor_log2_scale [of x 512] by (simp add: pow2_def)

lemma floor_log2_mid:
  "1 / 2 ^ 64 \<le> x \<Longrightarrow> x < 2 ^ 64 \<Longrightarrow>
   floor_log2 x =
     (if 1 \<le> x then bit_len \<lfloor>x\<rfloor> - 1 else - bit_len (- \<lfloor>- (1 / x)\<rfloor> - 1))"
  by (simp add: floor_log2_def)

lemmas fp_defs = to_float_def to_double_def fp_round_def round_half_even_def
  floor_log2_down_512 floor_log2_up_512 floor_log2_down floor_log2_up floor_log2_mid
  pow2_def bit_len.simps

text \<open>
  The error exits of the engine (\<open>PsychErrorExitMsg\<close>, which does not return to the
  caller), and the places where the C source has no defined behaviour (a read through
  \<open>NULL\<close> or outside an array, an integer division by zero, a conversion of a floating
  value that does not fit).
\<close>

datatype psych_error =
    PsychError_user string
  | PsychError_system string
  | Undefined_behaviour string

section \<open>The libdc1394 surface\<close>

text \<open>
  Enumerations and helper functions of libdc1394 V2 that the engine calls. They are
  declared in the library's headers; the values below are the library's.
\<close>

datatype dc1394color_coding =
    DC1394_COLOR_CODING_MONO8
  | DC1394_COLOR_CODING_YUV411
  | DC1394_COLOR_CODING_YUV422
  | DC1394_COLOR_CODING_YUV444
  | DC1394_COLOR_CODING_RGB8
  | DC1394_COLOR_CODING_MONO16
  | DC1394_COLOR_CODING_RGB16
  | DC1394_COLOR_CODING_MONO16S
  | DC1394_COLOR_CODING_RGB16S
  | DC1394_COLOR_CODING_RAW8
  | DC1394_COLOR_CODING_RAW16

fun dc1394_is_color :: "dc1394color_coding \<Rightarrow> bool" where
  "dc1394_is_color DC1394_COLOR_CODING_MONO8 = False"
| "dc1394_is_color DC1394_COLOR_CODING_MONO16 = False"
| "dc1394_is_color DC1394_COLOR_CODING_MONO16S = False"
| "dc1394_is_color DC1394_COLOR_CODING_RAW8 = False"
| "dc1394_is_color DC1394_COLOR_CODING_RAW16 = False"
| "dc1394_is_color _ = True"

fun dc1394_get_color_coding_data_depth :: "dc1394color_coding \<Rightarrow> int" where
  "dc1394_get_color_coding_data_depth DC1394_COLOR_CODING_MONO16 = 16"
| "dc1394_get_color_coding_data_depth DC1394_COLOR_CODING_RGB16 = 16"
| "dc1394_get_color_coding_data_depth DC1394_COLOR_CODING_MONO16S = 16"
| "dc1394_get_color_coding_data_depth DC1394_COLOR_CODING_RGB16S = 16"
| "dc1394_get_color_coding_data_depth DC1394_COLOR_CODING_RAW16 = 16"
| "dc1394_get_color_coding_data_depth _ = 8"

datatype dc1394framerate =
    DC1394_FRAMERATE_1_875
  | DC1394_FRAMERATE_3_75
  | DC1394_FRAMERATE_7_5
  | DC1394_FRAMERATE_15
  | DC1394_FRAMERATE_30
  | DC1394_FRAMERATE_60
  | DC1394_FRAMERATE_120
  | DC1394_FRAMERATE_240

definition DC1394_FRAMERATE_MIN :: dc1394framerate where
  "DC1394_FRAMERATE_MIN = DC1394_FRAMERATE_1_875"

fun dc1394_framerate_as_float :: "dc1394framerate \<Rightarrow> rat" where
  "dc1394_framerate_as_float DC1394_FRAMERATE_1_875 = 15 / 8"
| "dc1394_framerate_as_float DC1394_FRAMERATE_3_75 = 15 / 4"
| "dc1394_framerate_as_float DC1394_FRAMERATE_7_5 = 15 / 2"
| "dc1394_framerate_as_float DC1394_FRAMERATE_15 = 15"
| "dc1394_framerate_as_float DC1394_FRAMERATE_30 = 30"
| "dc1394_framerate_as_float DC1394_FRAMERATE_60 = 60"
| "dc1394_framerate_as_float DC1394_FRAMERATE_120 = 120"
| "dc1394_framerate_as_float DC1394_FRAMERATE_240 = 240"

datatype dc1394speed =
    DC1394_ISO_SPEED_100
  | DC1394_ISO_SPEED_200
  | DC1394_ISO_SPEED_400
  | DC1394_ISO_SPEED_800
  | DC1394_ISO_SPEED_1600
  | DC1394_ISO_SPEED_3200
  | DC1394_ISO_SPEED_other

text \<open>Video modes are the library's enumeration values, kept as integers.\<close>

definition DC1394_VIDEO_MODE_MIN :: int where
  "DC1394_VIDEO_MODE_MIN = 64"

definition DC1394_VIDEO_MODE_FORMAT7_MIN :: int where
  "DC1394_VIDEO_MODE_FORMAT7_MIN = 88"

definition DC1394_VIDEO_MODE_FORMAT7_MAX :: int where
  "DC1394_VIDEO_MODE_FORMAT7_MAX = 95"

definition DC1394_BAYER_METHOD_NEAREST :: int where
  "DC1394_BAYER_METHOD_NEAREST = 0"

text \<open>
  What one camera answers to the capability queries of the engine. A query that the
  library can fail is an \<open>option\<close>: \<open>None\<close> is a return code other than
  \<open>DC1394_SUCCESS\<close>. The \<open>_ok\<close> fields say whether the corresponding set call succeeds.
  The sizes, packet bounds and depths are values of \<open>unsigned int\<close>. The unconditional
  console output of the mode selectors is kept as a list of messages; output that
  depends on the verbosity preference is not modelled.
\<close>

datatype message =
    Warning_framerate_not_supported rat rat
  | Info_no_matching_format7_mode
  | Info_no_format7_modes
  | Info_trying_non_format7

record mode_caps =
  mode_id :: int
  color_code :: dc1394color_coding
  img_w :: int
  img_h :: int
  framerates :: "dc1394framerate list"
  f7_max_size :: "(int \<times> int) option"
  f7_set_position_ok :: bool
  f7_set_size_ok :: bool
  f7_packet_parameters :: "(int \<times> int) option"
  f7_data_depth :: "int option"

record camera =
  vendor :: string
  model_name :: string
  video_modes :: "mode_caps list"
  iso_speed :: "dc1394speed option"
  trigger_present :: "bool option"
  video_data_depth :: "int option"

section \<open>The capture device record\<close>

record video_frame =
  image :: "16 word list"
  frames_behind :: int
  timestamp :: int
  color_filter :: int

text \<open>
  The thread behind a thread handle: the scheduling that \<open>PsychSetThreadPriority\<close> gave
  it, and whether its thread function is still running.
\<close>

record psych_thread =
  schedulingPolicy :: int
  priorityTweak :: int
  running :: bool

record roirect =
  kPsychLeft :: rat
  kPsychTop :: rat
  kPsychRight :: rat
  kPsychBottom :: rat

definition PsychGetWidthFromRect :: "roirect \<Rightarrow> rat" where
  "PsychGetWidthFromRect r = kPsychRight r - kPsychLeft r"

definition PsychGetHeightFromRect :: "roirect \<Rightarrow> rat" where
  "PsychGetHeightFromRect r = kPsychBottom r - kPsychTop r"

definition PsychMakeRect :: "rat \<Rightarrow> rat \<Rightarrow> rat \<Rightarrow> rat \<Rightarrow> roirect" where
  "PsychMakeRect l t r b = \<lparr>kPsychLeft = l, kPsychTop = t, kPsychRight = r, kPsychBottom = b\<rparr>"

definition kPsychIsSyncMaster :: int where "kPsychIsSyncMaster = 1"
definition kPsychIsSyncSlave :: int where "kPsychIsSyncSlave = 2"
definition kPsychIsSoftSynced :: int where "kPsychIsSoftSynced = 4"
definition kPsychIsBusSynced :: int where "kPsychIsBusSynced = 8"
definition kPsychIsHwSynced :: int where "kPsychIsHwSynced = 16"

text \<open>
  \<open>PsychVidcapRecordType\<close>. Pointers are options (\<open>None\<close> is \<open>NULL\<close>); the mutex and the
  condition variable carry no data and are left out; the timing statistics
  (\<open>avg_decompresstime\<close>, \<open>avg_gfxtime\<close>) and the capture timestamps depend on the host
  clock only and are left out as well.
\<close>

record capdev =
  valid :: int
  capturehandle :: int
  recorderThread :: "psych_thread option"
  frameAvail :: int
  cam :: "camera option"
  frame :: "video_frame option"
  convframe :: "video_frame option"
  current_frame :: "16 word list option"
  pulled_frame :: "16 word list option"
  syncmode :: int
  dropframes :: int
  dc_imageformat :: int
  dc_framerate :: dc1394framerate
  colormode :: dc1394color_coding
  debayer_method :: int
  color_filter_override :: int
  dataconversionmode :: int
  reqlayers :: int
  actuallayers :: int
  bitdepth :: int
  num_dmabuffers :: int
  nrframes :: int
  framecounter :: int
  fps :: rat
  width :: int
  height :: int
  current_dropped :: int
  pulled_dropped :: int
  nr_droppedframes :: int
  frame_ready :: int
  grabber_active :: int
  roi :: roirect
  nrgfxframes :: int
  recording_active :: bool
  targetmoviefilename :: "string option"
  codecSpec :: "string option"
  moviehandle :: int
  recordingflags :: "32 word"
  specialFlags :: "32 word"

text \<open>
  The record after \<open>memset(capdev, 0, sizeof(PsychVidcapRecordType))\<close>. The enumeration
  fields hold the value 0, which is no member of their enumeration; they are written
  before they are read, and the model puts the first member in their place.
\<close>

definition capdev_zero :: capdev where
  "capdev_zero = \<lparr>
     valid = 0, capturehandle = 0, recorderThread = None, frameAvail = 0, cam = None,
     frame = None, convframe = None, current_frame = None, pulled_frame = None,
     syncmode = 0, dropframes = 0, dc_imageformat = 0,
     dc_framerate = DC1394_FRAMERATE_1_875, colormode = DC1394_COLOR_CODING_MONO8,
     debayer_method = 0, color_filter_override = 0, dataconversionmode = 0,
     reqlayers = 0, actuallayers = 0, bitdepth = 0, num_dmabuffers = 0, nrframes = 0,
     framecounter = 0, fps = 0, width = 0, height = 0, current_dropped = 0,
     pulled_dropped = 0, nr_droppedframes = 0, frame_ready = 0, grabber_active = 0,
     roi = PsychMakeRect 0 0 0 0, nrgfxframes = 0, recording_active = False,
     targetmoviefilename = None, codecSpec = None, moviehandle = 0,
     recordingflags = 0, specialFlags = 0\<rparr>"

section \<open>Opening a capture device\<close>

text \<open>\<open>strstr\<close>: the index of the first occurrence of the needle, if any.\<close>

fun strstr :: "string \<Rightarrow> string \<Rightarrow> nat option" where
  "strstr [] n = (if n = [] then Some 0 else None)"
| "strstr (c # cs) n =
     (if prefix n (c # cs) then Some 0 else map_option Suc (strstr cs n))"

text \<open>
  The parse of the optional codec suffix of the movie file name: the name that remains
  and the codec specification, or the error exit on an empty \<open>:CodecType=\<close>.
  \<open>strncpy\<close> overwrites the 14 characters \<open>CodecSettings=\<close> by \<open>DEFAULTenc\<close> and four
  blanks. After the copy of the specification the source frees it when it compares equal
  to \<open>DEFAULTenc\<close>: for the suffix \<open>:CodecType=DEFAULTenc\<close> this frees a pointer into the
  string of the caller.
\<close>

definition parse_codec :: "string \<Rightarrow> psych_error + (string \<times> string)" where
  "parse_codec targetmovie =
     (case strstr targetmovie '':CodecSettings='' of
        Some i \<Rightarrow>
          (let codec = ''DEFAULTenc    '' @ drop (i + 15) targetmovie
           in if length codec = 0
              then Inl (PsychError_user ''Invalid (empty) :CodecSettings= parameter specified. Aborted.'')
              else Inr (take i targetmovie, codec))
      | None \<Rightarrow>
          (case strstr targetmovie '':CodecType='' of
             Some i \<Rightarrow>
               (let codec = drop (i + 11) targetmovie
                in if length codec = 0
                   then Inl (PsychError_user ''Invalid (empty) :CodecType= parameter specified. Aborted.'')
                   else if codec = ''DEFAULTenc''
                   then Inl (Undefined_behaviour ''free of a pointer into the string of the caller'')
                   else Inr (take i targetmovie, codec))
           | None \<Rightarrow> Inr (targetmovie, ''DEFAULTenc'')))"

text \<open>
  \<open>PsychDCOpenVideoCaptureDevice\<close>. \<open>enumerated\<close> is the result of
  \<open>dc1394_camera_enumerate\<close>: \<open>None\<close> when it fails, else the cameras on the bus, each
  as the result of \<open>dc1394_camera_new_unit\<close> on it (\<open>None\<close> when the camera cannot be
  initialised). Every error exit invalidates the slot; the model returns the error.
  A negative \<open>deviceIndex\<close> other than -1 passes the bounds check of the source and
  reads outside the camera list.
\<close>

definition PsychDCOpenVideoCaptureDevice ::
  "int \<Rightarrow> int \<Rightarrow> roirect option \<Rightarrow> int \<Rightarrow> int \<Rightarrow> string option \<Rightarrow> 32 word \<Rightarrow> int \<Rightarrow>
   camera option list option \<Rightarrow> psych_error + capdev" where
  "PsychDCOpenVideoCaptureDevice slotid deviceIndex capturerectangle reqdepth num_dmabuffers_req
       targetmovie recordingflags_req bitdepth_req enumerated =
     (let c0 = capdev_zero\<lparr>valid := 1, cam := None, grabber_active := 0, convframe := None,
                 debayer_method := DC1394_BAYER_METHOD_NEAREST, capturehandle := slotid\<rparr>;
          parsed = (case targetmovie of
                      None \<Rightarrow> Inr (c0\<lparr>recording_active := False\<rparr>, recordingflags_req)
                    | Some name \<Rightarrow>
                        (case parse_codec name of
                           Inl e \<Rightarrow> Inl e
                         | Inr (fname, codec) \<Rightarrow>
                             Inr (c0\<lparr>codecSpec := Some codec, targetmoviefilename := Some fname,
                                     recording_active := True\<rparr>,
                                  recordingflags_req AND NOT 2)))
      in case parsed of
           Inl e \<Rightarrow> Inl e
         | Inr (c1, flags) \<Rightarrow>
             (let c2 = c1\<lparr>recordingflags := flags\<rparr>
              in case enumerated of
                   None \<Rightarrow> Inl (PsychError_user ''Unable to detect Firewire cameras'')
                 | Some cameras \<Rightarrow>
                     if int (length cameras) < 1
                     then Inl (PsychError_user ''Unable to find any Firewire camera'')
                     else if deviceIndex \<noteq> -1 \<and> deviceIndex \<ge> int (length cameras)
                     then Inl (PsychError_user ''No such camera'')
                     else if deviceIndex \<noteq> -1 \<and> deviceIndex < 0
                     then Inl (Undefined_behaviour ''cameras->ids[deviceIndex] out of bounds'')
                     else
                       (case cameras ! nat (if deviceIndex = -1 then 0 else deviceIndex) of
                          None \<Rightarrow> Inl (PsychError_user ''Failed to initialize camera'')
                        | Some camera \<Rightarrow>
                            Inr (c2\<lparr>cam := Some camera,
                                    roi := (case capturerectangle of
                                              Some r \<Rightarrow> r
                                            | None \<Rightarrow> PsychMakeRect 0 0 1 1),
                                    fps := 0, width := 0, height := 0,
                                    reqlayers := reqdepth,
                                    bitdepth := (if bitdepth_req \<le> 8 then 8 else 16),
                                    num_dmabuffers :=
                                      (if num_dmabuffers_req > 0 then num_dmabuffers_req else 8),
                                    framecounter := 0, nrframes := 0, grabber_active := 0\<rparr>))))"

subsection \<open>A camera and an opened device for concrete runs\<close>

text \<open>
  A camera with three fixed modes (640x480 RGB8 at 15 fps, 640x480 YUV422 at 15 and 30
  fps, 1024x768 RGB8 at 15 fps) and one Format-7 mode (800x600 MONO8, packet sizes 4 to
  8192 bytes), on a 400 Mb/s bus.
\<close>

definition mode_640x480_RGB8 :: mode_caps where
  "mode_640x480_RGB8 = \<lparr>mode_id = 68, color_code = DC1394_COLOR_CODING_RGB8,
     img_w = 640, img_h = 480, framerates = [DC1394_FRAMERATE_15],
     f7_max_size = None, f7_set_position_ok = False, f7_set_size_ok = False,
     f7_packet_parameters = None, f7_data_depth = None\<rparr>"

definition mode_640x480_YUV422 :: mode_caps where
  "mode_640x480_YUV422 = \<lparr>mode_id = 67, color_code = DC1394_COLOR_CODING_YUV422,
     img_w = 640, img_h = 480, framerates = [DC1394_FRAMERATE_15, DC1394_FRAMERATE_30],
     f7_max_size = None, f7_set_position_ok = False, f7_set_size_ok = False,
     f7_packet_parameters = None, f7_data_depth = None\<rparr>"

definition mode_1024x768_RGB8 :: mode_caps where
  "mode_1024x768_RGB8 = \<lparr>mode_id = 75, color_code = DC1394_COLOR_CODING_RGB8,
     img_w = 1024, img_h = 768, framerates = [DC1394_FRAMERATE_15],
     f7_max_size = None, f7_set_position_ok = False, f7_set_size_ok = False,
     f7_packet_parameters = None, f7_data_depth = None\<rparr>"

definition mode_format7_0 :: mode_caps where
  "mode_format7_0 = \<lparr>mode_id = 88, color_code = DC1394_COLOR_CODING_MONO8,
     img_w = 800, img_h = 600, framerates = [],
     f7_max_size = Some (800, 600), f7_set_position_ok = True, f7_set_size_ok = True,
     f7_packet_parameters = Some (4, 8192), f7_data_depth = Some 8\<rparr>"

definition sample_camera :: camera where
  "sample_camera = \<lparr>vendor = ''Basler'', model_name = ''A602f'',
     video_modes = [mode_640x480_RGB8, mode_640x480_YUV422, mode_1024x768_RGB8, mode_format7_0],
     iso_speed = Some DC1394_ISO_SPEED_400, trigger_present = Some True,
     video_data_depth = Some 8\<rparr>"

definition sample_capdev :: capdev where
  "sample_capdev = capdev_zero\<lparr>valid := 1, cam := Some sample_camera,
     roi := PsychMakeRect 0 0 1 1, reqlayers := 3, bitdepth := 8, num_dmabuffers := 8\<rparr>"

subsection \<open>Properties of open\<close>



text \<open>
  C9, as the code has it: a successful open stores the recording flags with the audio
  bit (value 2) cleared when a target movie file name was supplied, and stores them
  unchanged when none was.
\<close>

theorem open_recordingflags:
  "PsychDCOpenVideoCaptureDevice slotid deviceIndex rect reqdepth ndma movie flags bpc cams = Inr c \<Longrightarrow>
   recordingflags c = (if movie = None then flags else flags AND NOT 2)"
  unfolding PsychDCOpenVideoCaptureDevice_def Let_def
  by (auto split: option.splits sum.splits prod.splits if_splits)

theorem open_recordingflags_witness:
  "case PsychDCOpenVideoCaptureDevice 0 (-1) None 3 0 (Some ''movie.mov'') 18 8
          (Some [Some sample_camera]) of
     Inl e \<Rightarrow> False
   | Inr c \<Rightarrow> recordingflags c = 16"
proof -
  obtain c where h:
    "PsychDCOpenVideoCaptureDevice 0 (-1) None 3 0 (Some ''movie.mov'') 18 8
       (Some [Some sample_camera]) = Inr c"
    by (simp add: PsychDCOpenVideoCaptureDevice_def parse_codec_def)
  from open_recordingflags [OF h] show ?thesis
    by (simp add: h)
qed

text \<open>
  C9 as stated fails: opened without a movie file name and with the audio bit set, the
  device record keeps the audio bit.
\<close>

theorem open_audio_flag_counterexample:
  "map_sum id recordingflags
     (PsychDCOpenVideoCaptureDevice 0 (-1) None 3 0 None 2 8 (Some [Some sample_camera])) = Inr 2"
  by (simp add: PsychDCOpenVideoCaptureDevice_def)

section \<open>Setting the synchronisation mode\<close>

text \<open>
  The \<open>SyncMode\<close> branch of \<open>PsychDCVideoCaptureSetParameter\<close>. \<open>v\<close> is the \<open>double\<close>
  value passed in; \<open>intval = (int) (value + 0.5)\<close> is stored in an \<open>unsigned int\<close>. The
  result is the old value and the updated record, or the error exit. A record without
  camera is never valid; the trigger query counts as failed there.
\<close>

definition SetParameter_SyncMode :: "capdev \<Rightarrow> rat \<Rightarrow> psych_error + (rat \<times> capdev)" where
  "SetParameter_SyncMode c v =
     (let oldvalue = of_int (syncmode c);
          intval = u32 (trunc_rat (v + 1 / 2))
      in if v \<noteq> DBL_MAX then
           if intval \<noteq> 0 then
             if intval AND kPsychIsSyncMaster \<noteq> 0 \<and> intval AND kPsychIsSyncSlave \<noteq> 0
             then Inl (PsychError_user ''Invalid syncmode provided: Camera can't be master and slave at the same time!'')
             else if \<not> (intval AND kPsychIsSyncMaster \<noteq> 0) \<and> \<not> (intval AND kPsychIsSyncSlave \<noteq> 0)
             then Inl (PsychError_user ''Invalid syncmode provided: Camera must be either master or slave. Can't be none of both!'')
             else
               (let oldintval = intval AND (kPsychIsSoftSynced OR kPsychIsBusSynced OR kPsychIsHwSynced)
                in if (intval AND kPsychIsSyncMaster \<noteq> 0 \<and> oldintval = 0) \<or>
                      (intval AND kPsychIsSyncSlave \<noteq> 0 \<and> oldintval \<noteq> kPsychIsSoftSynced \<and>
                       oldintval \<noteq> kPsychIsBusSynced \<and> oldintval \<noteq> kPsychIsHwSynced)
                   then Inl (PsychError_user ''Invalid syncmode provided: Missing sync strategy, either soft-, or bus-, or hw-synced!'')
                   else if intval AND kPsychIsHwSynced \<noteq> 0 \<and> intval AND kPsychIsSyncSlave \<noteq> 0 \<and>
                           (case cam c of None \<Rightarrow> True | Some k \<Rightarrow> trigger_present k \<noteq> Some True)
                   then Inr (oldvalue, c)
                   else Inr (oldvalue, c\<lparr>syncmode := s32 intval\<rparr>))
           else Inr (oldvalue, c\<lparr>syncmode := s32 intval\<rparr>)
         else Inr (oldvalue, c))"

lemma trunc_rat_half: "0 \<le> v \<Longrightarrow> trunc_rat (of_int v + 1 / 2) = v"
proof -
  assume nonneg: "0 \<le> v"
  have "\<lfloor>(of_int v + 1 / 2 :: rat)\<rfloor> = v"
    by (rule floor_unique) simp_all
  moreover have "(0::rat) \<le> of_int v + 1 / 2" using nonneg by simp
  ultimately show ?thesis by (simp add: trunc_rat_def)
qed

lemma small_ne_DBL_MAX: "v < 32 \<Longrightarrow> (of_int v :: rat) \<noteq> DBL_MAX"
proof -
  assume "v < 32"
  then have "(of_int v :: rat) < 32" by simp
  moreover have "(32 :: rat) < DBL_MAX" by (simp add: DBL_MAX_def)
  ultimately show ?thesis by simp
qed

lemmas sync_consts = kPsychIsSyncMaster_def kPsychIsSyncSlave_def
  kPsychIsSoftSynced_def kPsychIsBusSynced_def kPsychIsHwSynced_def

text \<open>
  C2, as the code has it. Over the bit sets of \<open>{master, slave, soft, bus, hw}\<close> (the values
  0 to 31): the value 0, Master with any non-empty set of strategies (5, 9, 13, 17, 21,
  25, 29) and Slave with exactly one of Soft and Bus (6, 10) are accepted and stored;
  Slave|Hw (18) is accepted, and stored only when the camera has the trigger feature
  (otherwise the call returns with the mode unchanged); every other value is rejected
  with an error.
\<close>

theorem SyncMode_accepted_combinations:
  assumes "0 \<le> v" and "v < 32"
  shows "(v \<in> {0, 5, 6, 9, 10, 13, 17, 21, 25, 29} \<longrightarrow>
            SetParameter_SyncMode c (of_int v) = Inr (of_int (syncmode c), c\<lparr>syncmode := v\<rparr>)) \<and>
         (v = 18 \<longrightarrow>
            SetParameter_SyncMode c (of_int v) =
              Inr (of_int (syncmode c),
                   if (case cam c of None \<Rightarrow> False | Some k \<Rightarrow> trigger_present k = Some True)
                   then c\<lparr>syncmode := v\<rparr> else c)) \<and>
         (v \<notin> {0, 5, 6, 9, 10, 13, 17, 18, 21, 25, 29} \<longrightarrow>
            isl (SetParameter_SyncMode c (of_int v)))"
proof -
  have v: "v \<in> {0,1,2,3,4,5,6,7,8,9,10,11,12,13,14,15,16,17,18,19,20,21,22,23,24,25,26,27,28,29,30,31}"
    using assms by simp presburger
  have i: "u32 (trunc_rat (of_int v + 1 / 2)) = v" "s32 v = v"
    using assms by (simp_all add: trunc_rat_half u32_def s32_def)
  have d: "(of_int v :: rat) \<noteq> DBL_MAX"
    using assms by (simp add: small_ne_DBL_MAX)
  from v show ?thesis
    unfolding SetParameter_SyncMode_def Let_def i using d
    by (elim insertE emptyE) (simp_all add: sync_consts split: option.split)
qed

theorem SyncMode_accepted_combinations_witness:
  "SetParameter_SyncMode sample_capdev 18 = Inr (0, sample_capdev\<lparr>syncmode := 18\<rparr>) \<and>
   SetParameter_SyncMode sample_capdev 5 = Inr (0, sample_capdev\<lparr>syncmode := 5\<rparr>) \<and>
   isl (SetParameter_SyncMode sample_capdev 3)"
  using SyncMode_accepted_combinations [of 18 sample_capdev]
    SyncMode_accepted_combinations [of 5 sample_capdev]
    SyncMode_accepted_combinations [of 3 sample_capdev]
  by (simp add: sample_capdev_def sample_camera_def capdev_zero_def)

text \<open>
  C2 as stated fails: Master with two strategies (Master|Soft|Bus, the value 13) is not
  one of the seven listed combinations, and it is accepted and stored.
\<close>

theorem SyncMode_master_soft_bus_counterexample:
  "map_sum id (\<lambda>r. syncmode (snd r)) (SetParameter_SyncMode sample_capdev 13) = Inr 13"
  by (simp add: SetParameter_SyncMode_def sync_consts u32_def s32_def DBL_MAX_def Let_def
      trunc_rat_def sample_capdev_def sample_camera_def)

section \<open>Mode selection\<close>

subsection \<open>Pixel format admission and layer reconciliation\<close>

text \<open>
  The test of a candidate mode's colour coding against the requested layers, bit depth
  and data conversion mode. The two mode selectors hold the same text of it; \<open>True\<close>
  is the \<open>continue\<close> that skips the mode.
\<close>

definition raw_coding :: "capdev \<Rightarrow> dc1394color_coding" where
  "raw_coding c = (if bitdepth c \<le> 8 then DC1394_COLOR_CODING_RAW8 else DC1394_COLOR_CODING_RAW16)"

definition mono_coding :: "capdev \<Rightarrow> dc1394color_coding" where
  "mono_coding c = (if bitdepth c \<le> 8 then DC1394_COLOR_CODING_MONO8 else DC1394_COLOR_CODING_MONO16)"

definition pixelformat_rejected :: "capdev \<Rightarrow> dc1394color_coding \<Rightarrow> bool" where
  "pixelformat_rejected c cc =
     (if reqlayers c > 0 then
        (reqlayers c < 3 \<and>
           ((dataconversionmode c = 1 \<and> cc \<noteq> raw_coding c) \<or>
            (dataconversionmode c = 2 \<and> cc \<noteq> raw_coding c) \<or>
            (dataconversionmode c = 3 \<and> cc \<noteq> mono_coding c) \<or>
            (dataconversionmode c = 4 \<and> cc \<noteq> mono_coding c) \<or>
            (bitdepth c \<le> 8 \<and> cc \<noteq> DC1394_COLOR_CODING_RAW8 \<and> cc \<noteq> DC1394_COLOR_CODING_MONO8) \<or>
            (bitdepth c > 8 \<and> cc \<noteq> DC1394_COLOR_CODING_RAW16 \<and> cc \<noteq> DC1394_COLOR_CODING_MONO16))) \<or>
        (reqlayers c > 2 \<and>
           ((dataconversionmode c = 2 \<and> cc \<noteq> raw_coding c) \<or>
            (dataconversionmode c = 4 \<and> cc \<noteq> mono_coding c) \<or>
            (\<not> dc1394_is_color cc \<and> dataconversionmode c \<noteq> 2 \<and> dataconversionmode c \<noteq> 4) \<or>
            dc1394_get_color_coding_data_depth cc \<noteq> (if bitdepth c \<le> 8 then 8 else 16))) \<or>
        (reqlayers c = 5 \<and> cc \<noteq> DC1394_COLOR_CODING_YUV422 \<and> cc \<noteq> DC1394_COLOR_CODING_YUV411)
      else dc1394_get_color_coding_data_depth cc \<noteq> (if bitdepth c \<le> 8 then 8 else 16))"

text \<open>
  An error exit of a function that works on the device record leaves the record as the
  function has changed it so far: the record lives in the global bank of devices and
  the next call finds it there. Such a function returns either the error together
  with that record, or its result.
\<close>

type_synonym 'a exit = "(psych_error \<times> capdev) + 'a"

text \<open>
  The derivation of \<open>actuallayers\<close> from the chosen colour coding and the match of
  \<open>reqlayers\<close> against it (again the same text in both selectors).
\<close>

definition reconcile_layers :: "capdev \<Rightarrow> dc1394color_coding \<Rightarrow> capdev exit" where
  "reconcile_layers c cc =
     (let al0 = (if cc = DC1394_COLOR_CODING_MONO8 \<or> cc = DC1394_COLOR_CODING_RAW8 \<or>
                    cc = DC1394_COLOR_CODING_MONO16 \<or> cc = DC1394_COLOR_CODING_RAW16
                 then 1 else 3);
          al = (if al0 = 1 \<and> reqlayers c \<ge> 3 \<and>
                   (dataconversionmode c = 2 \<or> dataconversionmode c = 4)
                then 3 else al0);
          c1 = c\<lparr>actuallayers := al\<rparr>
      in if reqlayers c1 = 0 then Inr (c1\<lparr>reqlayers := al\<rparr>)
         else if reqlayers c1 = 1 \<or> reqlayers c1 = 2 then Inr (c1\<lparr>reqlayers := al\<rparr>)
         else if reqlayers c1 = 3 \<or> reqlayers c1 = 4 then Inr (c1\<lparr>reqlayers := al\<rparr>)
         else if reqlayers c1 = 5 then Inr (c1\<lparr>reqlayers := 3\<rparr>)
         else Inl (PsychError_user ''You requested a invalid capture image format (more than 4 layers). Aborted.'',
                   c1\<lparr>reqlayers := 0\<rparr>))"

definition find_mode :: "camera \<Rightarrow> int \<Rightarrow> mode_caps option" where
  "find_mode k m = find (\<lambda>x. mode_id x = m) (video_modes k)"

definition roi_dont_care :: "capdev \<Rightarrow> bool" where
  "roi_dont_care c =
     (kPsychLeft (roi c) = 0 \<and> kPsychTop (roi c) = 0 \<and>
      trunc_rat (PsychGetWidthFromRect (roi c)) = 1 \<and>
      trunc_rat (PsychGetHeightFromRect (roi c)) = 1)"

subsection \<open>Fixed (non-Format-7) modes\<close>

text \<open>
  The loop over a mode's framerate table: the variable \<open>dc1394_framerate\<close> takes each
  entry in turn until one has a value of at least the requested rate. \<open>prev\<close> is the
  value the variable had before; it stays when the table is empty.
\<close>

fun pick_framerate :: "dc1394framerate \<Rightarrow> dc1394framerate list \<Rightarrow> rat \<Rightarrow> dc1394framerate" where
  "pick_framerate prev [] capturerate = prev"
| "pick_framerate prev (r # rs) capturerate =
     (if dc1394_framerate_as_float r \<ge> capturerate then r else pick_framerate r rs capturerate)"

record nf7_state =
  maximgarea :: int
  maximgmode :: int
  mode_found :: bool
  cur_framerate :: dc1394framerate

definition nf7_probe :: "capdev \<Rightarrow> rat \<Rightarrow> nf7_state \<Rightarrow> mode_caps \<Rightarrow> nf7_state" where
  "nf7_probe c capturerate st m =
     (let w = trunc_rat (PsychGetWidthFromRect (roi c));
          h = trunc_rat (PsychGetHeightFromRect (roi c))
      in if mode_id m \<ge> DC1394_VIDEO_MODE_FORMAT7_MIN then st
         else if pixelformat_rejected c (color_code m) then st
         else if kPsychLeft (roi c) = 0 \<and> kPsychTop (roi c) = 0 \<and> w = 1 \<and> h = 1 then
           (if u32 (img_w m * img_h m) < u32 (maximgarea st) then st
            else st\<lparr>maximgarea := s32 (img_w m * img_h m), maximgmode := mode_id m,
                     mode_found := True\<rparr>)
         else if kPsychLeft (roi c) \<noteq> 0 \<or> kPsychTop (roi c) \<noteq> 0 \<or>
                 w \<noteq> s32 (img_w m) \<or> h \<noteq> s32 (img_h m) then st
         else
           (let fr = pick_framerate (cur_framerate st) (framerates m) capturerate;
                framerate = dc1394_framerate_as_float fr;
                nonyuvbonus = ((reqlayers c = 0 \<or> reqlayers c > 2) \<and> dataconversionmode c = 0 \<and>
                               color_code m = DC1394_COLOR_CODING_RGB8);
                st1 = st\<lparr>cur_framerate := fr\<rparr>
            in if framerate > of_int (maximgarea st) \<or> (framerate = capturerate \<and> nonyuvbonus) \<or>
                  (framerate = of_int (maximgarea st) \<and> nonyuvbonus)
               then st1\<lparr>maximgarea := trunc_rat framerate, maximgmode := mode_id m,
                         mode_found := True\<rparr>
               else st1))"

text \<open>
  \<open>PsychVideoFindNonFormat7Mode\<close>: the updated device record and the messages printed.
  The queries on the chosen mode cannot fail for a mode taken from the camera's own
  list; the source does not check them.
\<close>

definition PsychVideoFindNonFormat7Mode ::
  "capdev \<Rightarrow> rat \<Rightarrow> (capdev \<times> message list) exit" where
  "PsychVideoFindNonFormat7Mode c capturerate =
     (case cam c of
        None \<Rightarrow> Inl (Undefined_behaviour ''capdev->camera is NULL'', c)
      | Some k \<Rightarrow>
          (let st = foldl (nf7_probe c capturerate)
                      \<lparr>maximgarea = 0, maximgmode = DC1394_VIDEO_MODE_MIN, mode_found = False,
                       cur_framerate = DC1394_FRAMERATE_15\<rparr>
                      (video_modes k)
           in if \<not> mode_found st
              then Inl (PsychError_user ''Couldn't find any capture mode settings for your camera which satisfy your minimum requirements! Aborted.'', c)
              else
                (case find_mode k (maximgmode st) of
                   None \<Rightarrow> Inl (Undefined_behaviour ''colour coding of an unknown mode'', c)
                 | Some m \<Rightarrow>
                     (case reconcile_layers (c\<lparr>dc_imageformat := maximgmode st\<rparr>) (color_code m) of
                        Inl e \<Rightarrow> Inl e
                      | Inr c1 \<Rightarrow>
                          (let c2 = c1\<lparr>roi := PsychMakeRect 0 0 (of_int (img_w m)) (of_int (img_h m))\<rparr>;
                               fr = pick_framerate (cur_framerate st) (framerates m) capturerate;
                               framerate = dc1394_framerate_as_float fr;
                               msgs = (if \<bar>framerate - capturerate\<bar> < 1 / 2 \<or> capturerate = DBL_MAX
                                       then []
                                       else if framerate < capturerate
                                       then [Warning_framerate_not_supported capturerate framerate]
                                       else [])
                           in Inr (c2\<lparr>dc_framerate := fr\<rparr>, msgs))))))"

subsection \<open>The framerate rule of the fixed modes\<close>

lemma pick_framerate_meets:
  "\<exists>r \<in> set rs. dc1394_framerate_as_float r \<ge> t \<Longrightarrow>
   sorted (map dc1394_framerate_as_float rs) \<Longrightarrow>
   pick_framerate prev rs t \<in> set rs \<and>
   dc1394_framerate_as_float (pick_framerate prev rs t) \<ge> t \<and>
   (\<forall>r' \<in> set rs. dc1394_framerate_as_float r' \<ge> t \<longrightarrow>
      dc1394_framerate_as_float (pick_framerate prev rs t) \<le> dc1394_framerate_as_float r')"
proof (induction rs arbitrary: prev)
  case Nil
  then show ?case by simp
next
  case (Cons r rs)
  show ?case
  proof (cases "dc1394_framerate_as_float r \<ge> t")
    case True
    then show ?thesis using Cons.prems(2) by auto
  next
    case False
    then have ex: "\<exists>r \<in> set rs. dc1394_framerate_as_float r \<ge> t"
      using Cons.prems(1) by auto
    have srt: "sorted (map dc1394_framerate_as_float rs)"
      using Cons.prems(2) by simp
    from Cons.IH [OF ex srt, of r] False show ?thesis by auto
  qed
qed

lemma pick_framerate_none:
  "\<forall>r \<in> set rs. dc1394_framerate_as_float r < t \<Longrightarrow> rs \<noteq> [] \<Longrightarrow>
   pick_framerate prev rs t = last rs"
  by (induction rs arbitrary: prev) auto

lemma sorted_last_max:
  "sorted (map f rs) \<Longrightarrow> r \<in> set rs \<Longrightarrow> (f r :: rat) \<le> f (last rs)"
  by (induction rs) auto

lemma reconcile_layers_imageformat:
  "reconcile_layers c cc = Inr c1 \<Longrightarrow> dc_imageformat c1 = dc_imageformat c"
  by (auto simp: reconcile_layers_def Let_def split: if_splits)

lemma NonFormat7_result:
  assumes "PsychVideoFindNonFormat7Mode c t = Inr (c', msgs)"
  shows "\<exists>k m prev. cam c = Some k \<and> find_mode k (dc_imageformat c') = Some m \<and>
           dc_framerate c' = pick_framerate prev (framerates m) t \<and>
           msgs = (if \<bar>dc1394_framerate_as_float (dc_framerate c') - t\<bar> < 1 / 2 \<or> t = DBL_MAX then []
                   else if dc1394_framerate_as_float (dc_framerate c') < t
                   then [Warning_framerate_not_supported t (dc1394_framerate_as_float (dc_framerate c'))]
                   else [])"
  using assms unfolding PsychVideoFindNonFormat7Mode_def Let_def
  by (auto split: option.splits sum.splits if_splits dest!: reconcile_layers_imageformat)

definition capdev_640x480 :: capdev where
  "capdev_640x480 = sample_capdev\<lparr>roi := PsychMakeRect 0 0 640 480\<rparr>"

lemmas fixture_defs = capdev_640x480_def sample_capdev_def sample_camera_def capdev_zero_def
  mode_640x480_RGB8_def mode_640x480_YUV422_def mode_1024x768_RGB8_def mode_format7_0_def

lemmas nf7_defs = PsychVideoFindNonFormat7Mode_def nf7_probe_def pixelformat_rejected_def
  reconcile_layers_def find_mode_def PsychMakeRect_def PsychGetWidthFromRect_def
  PsychGetHeightFromRect_def trunc_rat_def u32_def s32_def DC1394_VIDEO_MODE_FORMAT7_MIN_def
  DC1394_VIDEO_MODE_MIN_def raw_coding_def mono_coding_def Let_def

text \<open>
  C3, as the code has it. When the fixed-mode selector returns, and the framerate table
  of the mode it chose is not empty and sorted ascending by rate: the framerate it
  stores is an entry of the table; if some entry is at least the target, it is the
  smallest such entry and no warning is printed; if no entry reaches the target, it is
  the largest entry, and the warning is printed unless the target is \<open>DBL_MAX\<close> or
  exceeds the chosen rate by less than 0.5.
\<close>

theorem NonFormat7_framerate_rule:
  assumes res: "PsychVideoFindNonFormat7Mode c t = Inr (c', msgs)"
    and k: "cam c = Some k"
    and m: "find_mode k (dc_imageformat c') = Some m"
    and srt: "sorted (map dc1394_framerate_as_float (framerates m))"
    and ne: "framerates m \<noteq> []"
  shows "dc_framerate c' \<in> set (framerates m) \<and>
         ((\<exists>r \<in> set (framerates m). t \<le> dc1394_framerate_as_float r) \<longrightarrow>
            t \<le> dc1394_framerate_as_float (dc_framerate c') \<and>
            (\<forall>r \<in> set (framerates m). t \<le> dc1394_framerate_as_float r \<longrightarrow>
               dc1394_framerate_as_float (dc_framerate c') \<le> dc1394_framerate_as_float r) \<and>
            msgs = []) \<and>
         ((\<forall>r \<in> set (framerates m). dc1394_framerate_as_float r < t) \<longrightarrow>
            (\<forall>r \<in> set (framerates m).
               dc1394_framerate_as_float r \<le> dc1394_framerate_as_float (dc_framerate c')) \<and>
            msgs = (if t - dc1394_framerate_as_float (dc_framerate c') < 1 / 2 \<or> t = DBL_MAX then []
                    else [Warning_framerate_not_supported t (dc1394_framerate_as_float (dc_framerate c'))]))"
proof -
  from NonFormat7_result [OF res] k m obtain prev where
    fr: "dc_framerate c' = pick_framerate prev (framerates m) t" and
    ms: "msgs = (if \<bar>dc1394_framerate_as_float (dc_framerate c') - t\<bar> < 1 / 2 \<or> t = DBL_MAX then []
                   else if dc1394_framerate_as_float (dc_framerate c') < t
                   then [Warning_framerate_not_supported t (dc1394_framerate_as_float (dc_framerate c'))]
                   else [])"
    by auto
  show ?thesis
  proof (cases "\<exists>r \<in> set (framerates m). t \<le> dc1394_framerate_as_float r")
    case True
    from pick_framerate_meets [OF True srt, of prev] fr
    have p: "dc_framerate c' \<in> set (framerates m)"
      "t \<le> dc1394_framerate_as_float (dc_framerate c')"
      "\<forall>r' \<in> set (framerates m). t \<le> dc1394_framerate_as_float r' \<longrightarrow>
         dc1394_framerate_as_float (dc_framerate c') \<le> dc1394_framerate_as_float r'"
      by simp_all
    from p(2) ms have "msgs = []" by (simp split: if_splits)
    with p True show ?thesis by auto
  next
    case False
    then have all: "\<forall>r \<in> set (framerates m). dc1394_framerate_as_float r < t" by auto
    from pick_framerate_none [OF all ne, of prev] fr
    have l: "dc_framerate c' = last (framerates m)" by simp
    have mem: "dc_framerate c' \<in> set (framerates m)" using l ne by simp
    have mx: "\<forall>r \<in> set (framerates m).
               dc1394_framerate_as_float r \<le> dc1394_framerate_as_float (dc_framerate c')"
      using sorted_last_max [OF srt] l by simp
    from all mem have lt: "dc1394_framerate_as_float (dc_framerate c') < t" by blast
    from lt ms have "msgs = (if t - dc1394_framerate_as_float (dc_framerate c') < 1 / 2 \<or> t = DBL_MAX then []
                    else [Warning_framerate_not_supported t (dc1394_framerate_as_float (dc_framerate c'))])"
      by (simp add: abs_if)
    with False mem mx show ?thesis by auto
  qed
qed

theorem NonFormat7_framerate_rule_witness:
  "PsychVideoFindNonFormat7Mode capdev_640x480 40 =
     Inr (capdev_640x480\<lparr>dc_imageformat := 67, actuallayers := 3,
            dc_framerate := DC1394_FRAMERATE_30\<rparr>,
          [Warning_framerate_not_supported 40 30]) \<and>
   DC1394_FRAMERATE_30 \<in> set (framerates mode_640x480_YUV422)"
proof -
  let ?c' = "capdev_640x480\<lparr>dc_imageformat := 67, actuallayers := 3,
               dc_framerate := DC1394_FRAMERATE_30\<rparr>"
  have run: "PsychVideoFindNonFormat7Mode capdev_640x480 40 =
               Inr (?c', [Warning_framerate_not_supported 40 30])"
    by (simp add: fixture_defs nf7_defs DBL_MAX_def)
  have k: "cam capdev_640x480 = Some sample_camera"
    by (simp add: capdev_640x480_def sample_capdev_def)
  have m: "find_mode sample_camera (dc_imageformat ?c') = Some mode_640x480_YUV422"
    by (simp add: find_mode_def fixture_defs)
  have srt: "sorted (map dc1394_framerate_as_float (framerates mode_640x480_YUV422))"
    by (simp add: mode_640x480_YUV422_def)
  have ne: "framerates mode_640x480_YUV422 \<noteq> []"
    by (simp add: mode_640x480_YUV422_def)
  from NonFormat7_framerate_rule [OF run k m srt ne] run show ?thesis
    by simp
qed

text \<open>
  C3 as stated fails in its last part: asked for the fastest rate (\<open>DBL_MAX\<close>), no rate
  of the table meets the target, the maximum (30 fps) is chosen, and no warning is
  printed.
\<close>

theorem NonFormat7_no_warning_counterexample:
  "map_sum id (\<lambda>r. (dc_framerate (fst r), snd r))
     (PsychVideoFindNonFormat7Mode capdev_640x480 DBL_MAX) = Inr (DC1394_FRAMERATE_30, [])"
  by (simp add: fixture_defs nf7_defs DBL_MAX_def)

subsection \<open>Format-7 modes\<close>

text \<open>
  A call that may fail with an error exit, reach undefined behaviour, or not return at
  all (\<open>None\<close>): the result type of the operations that contain an unbounded loop or a
  blocking wait.
\<close>

type_synonym 'a outcome = "(psych_error + 'a) option"

definition ret :: "'a \<Rightarrow> ('e + 'a) option" where
  "ret x = Some (Inr x)"

definition fail :: "'e \<Rightarrow> ('e + 'a) option" where
  "fail e = Some (Inl e)"

definition and_then :: "('e + 'a) option \<Rightarrow> ('a \<Rightarrow> ('e + 'b) option) \<Rightarrow> ('e + 'b) option" where
  "and_then x f = (case x of None \<Rightarrow> None | Some (Inl e) \<Rightarrow> Some (Inl e) | Some (Inr v) \<Rightarrow> f v)"

text \<open>A computation that does not touch the device record \<open>c\<close>: its error exits leave \<open>c\<close>.\<close>

definition exit_at :: "capdev \<Rightarrow> 'a outcome \<Rightarrow> 'a exit option" where
  "exit_at c x = map_option (map_sum (\<lambda>e. (e, c)) id) x"

text \<open>
  The bus cycle period in seconds for the iso speed code of the camera: the \<open>float\<close>
  constants \<open>0.000500f\<close> to \<open>0.000015625f\<close> of the source, none of which is a binary
  fraction.
\<close>

fun bus_period_of :: "dc1394speed \<Rightarrow> rat option" where
  "bus_period_of DC1394_ISO_SPEED_100 = Some (to_float (1 / 2000))"
| "bus_period_of DC1394_ISO_SPEED_200 = Some (to_float (1 / 4000))"
| "bus_period_of DC1394_ISO_SPEED_400 = Some (to_float (1 / 8000))"
| "bus_period_of DC1394_ISO_SPEED_800 = Some (to_float (1 / 16000))"
| "bus_period_of DC1394_ISO_SPEED_1600 = Some (to_float (1 / 32000))"
| "bus_period_of DC1394_ISO_SPEED_3200 = Some (to_float (1 / 64000))"
| "bus_period_of DC1394_ISO_SPEED_other = None"

text \<open>
  \<open>num_packets = (int) (1.0 / (bus_period * capturerate) + 0.5)\<close>, brought into the range
  1 to 4095 and multiplied by 8. The product, the quotient and the sum are computed in
  \<open>double\<close>. The conversion to \<open>int\<close> is undefined when the quotient is infinite (the
  product is zero, or the quotient lies beyond the largest \<open>double\<close> and so outside the
  range of \<open>int\<close> as well) or does not fit.
\<close>

definition f7_num_packets :: "rat \<Rightarrow> rat \<Rightarrow> psych_error + int" where
  "f7_num_packets bus_period capturerate =
     (let prod = to_double (bus_period * capturerate);
          x = to_double (to_double (1 / prod) + 1 / 2)
      in if prod = 0 \<or> \<not> (- (2 ^ 31) - 1 < x \<and> x < 2 ^ 31)
         then Inl (Undefined_behaviour ''conversion of a double outside the range of int'')
         else
           (let num_packets = trunc_rat x;
                clamped = (if num_packets < 1 \<or> num_packets > 4095
                           then (if num_packets < 1 then 1 else 4095)
                           else num_packets)
            in Inr (clamped * 8)))"

text \<open>
  \<open>while (packet_size > (int) pbmax) packet_size = packet_size - pbmin;\<close> The
  subtraction is unsigned and its result is stored in an \<open>int\<close>.
\<close>

partial_function (option) shrink_packet_size :: "int \<Rightarrow> int \<Rightarrow> int \<Rightarrow> int option" where
  "shrink_packet_size packet_size pbmin pbmax =
     (if packet_size > s32 pbmax
      then shrink_packet_size (s32 (packet_size - pbmin)) pbmin pbmax
      else Some packet_size)"

text \<open>
  The packet size for an image of \<open>w\<close> by \<open>h\<close> pixels of \<open>depth\<close> bits, sent in
  \<open>num_packets\<close> packets: the quotient rounded up, raised to \<open>pbmin\<close>, rounded down to a
  multiple of \<open>pbmin\<close> and lowered below \<open>pbmax\<close>.
\<close>

definition f7_packet_size :: "int \<Rightarrow> int \<Rightarrow> int \<Rightarrow> int \<Rightarrow> int \<Rightarrow> int \<Rightarrow> int outcome" where
  "f7_packet_size w h depth num_packets pbmin pbmax =
     (let ps0 = s32 (u32 (w * h * depth + num_packets - 1) div u32 num_packets);
          ps1 = (if ps0 < s32 pbmin then s32 pbmin else ps0)
      in if pbmin = 0 then fail (Undefined_behaviour ''packet_size % pbmin with pbmin == 0'')
         else
           (let ps2 = (if u32 ps1 mod pbmin \<noteq> 0 then s32 (ps1 - u32 ps1 mod pbmin) else ps1)
            in case shrink_packet_size ps2 pbmin pbmax of
                 None \<Rightarrow> None
               | Some ps \<Rightarrow> ret ps))"

text \<open>
  The number of packets per frame at a packet size, and the framerate that follows
  from it, \<open>framerate = 1.0 / (bus_period * (float) num_packets)\<close>: the product is
  computed in \<open>float\<close>, the quotient in \<open>double\<close> and stored in a \<open>float\<close>. \<open>None\<close> is the
  infinite rate of a frame of no packets.
\<close>

definition f7_frame_packets :: "int \<Rightarrow> int \<Rightarrow> int \<Rightarrow> int \<Rightarrow> int" where
  "f7_frame_packets w h depth packet_size =
     s32 (u32 (w * h * depth + packet_size * 8 - 1) div u32 (packet_size * 8))"

definition f7_framerate :: "rat \<Rightarrow> int \<Rightarrow> rat option" where
  "f7_framerate bus_period num_packets =
     (let prod = to_float (bus_period * to_float (of_int num_packets))
      in if prod = 0 then None else Some (to_float (to_double (1 / prod))))"

text \<open>
  The local variables of \<open>PsychVideoFindFormat7Mode\<close> that live across the loop over the
  modes. \<open>minimgsize\<close> is the image size that the loop programmed into the mode
  \<open>minimgmode\<close> of the camera, which the function reads back after the loop. \<open>mindiff\<close>
  and \<open>mindifframerate\<close> are \<open>float\<close> variables: the distance
  \<open>fabs(capturerate - framerate)\<close> is computed and compared in \<open>double\<close> and rounded when it
  is stored.
\<close>

record f7_state =
  mindiff :: rat
  mindifframerate :: rat
  minpacket_size :: int
  minimgmode :: int
  minimgsize :: "int \<times> int"
  numF7Available :: int

text \<open>The ROI part of the loop body: the image size set up in the mode, if any.\<close>

definition f7_setup_roi :: "capdev \<Rightarrow> mode_caps \<Rightarrow> (int \<times> int) option" where
  "f7_setup_roi c m =
     (let w = trunc_rat (PsychGetWidthFromRect (roi c));
          h = trunc_rat (PsychGetHeightFromRect (roi c))
      in if kPsychLeft (roi c) = 0 \<and> kPsychTop (roi c) = 0 \<and> w = 1 \<and> h = 1 then
           (case f7_max_size m of
              None \<Rightarrow> None
            | Some (mw, mh) \<Rightarrow>
                if \<not> f7_set_position_ok m then None
                else if \<not> f7_set_size_ok m then None
                else Some (s32 mw, s32 mh))
         else
           (case f7_max_size m of
              None \<Rightarrow> None
            | Some (mw, mh) \<Rightarrow>
                if w > s32 mw \<or> h > s32 mh then None
                else if \<not> f7_set_position_ok m then None
                else if \<not> f7_set_size_ok m then None
                else if \<not> f7_set_position_ok m then None
                else Some (w, h)))"

definition f7_probe :: "capdev \<Rightarrow> rat \<Rightarrow> rat \<Rightarrow> f7_state \<Rightarrow> mode_caps \<Rightarrow> f7_state outcome" where
  "f7_probe c capturerate bus_period st m =
     (if mode_id m < DC1394_VIDEO_MODE_FORMAT7_MIN \<or> mode_id m > DC1394_VIDEO_MODE_FORMAT7_MAX
      then ret st
      else
        (let st1 = st\<lparr>numF7Available := numF7Available st + 1\<rparr>
         in if pixelformat_rejected c (color_code m) then ret st1
            else
              (case f7_setup_roi c m of
                 None \<Rightarrow> ret st1
               | Some (w, h) \<Rightarrow>
                   (case f7_packet_parameters m of
                      None \<Rightarrow> ret st1
                    | Some (pbmin0, pbmax) \<Rightarrow>
                        (let pbmin = (if pbmin0 = 0 then pbmax else pbmin0)
                         in case f7_num_packets bus_period capturerate of
                              Inl e \<Rightarrow> fail e
                            | Inr num_packets \<Rightarrow>
                                (case f7_data_depth m of
                                   None \<Rightarrow> ret st1
                                 | Some depth \<Rightarrow>
                                     and_then (f7_packet_size w h depth num_packets pbmin pbmax)
                                       (\<lambda>packet_size.
                                          if u32 (packet_size * 8) = 0
                                          then fail (Undefined_behaviour ''division by packet_size * 8 == 0'')
                                          else
                                            (case f7_framerate bus_period
                                                    (f7_frame_packets w h depth packet_size) of
                                               None \<Rightarrow> ret st1
                                             | Some framerate \<Rightarrow>
                                                 if \<bar>to_double (capturerate - framerate)\<bar> < mindiff st1
                                                 then ret (st1\<lparr>mindiff := to_float \<bar>to_double (capturerate - framerate)\<bar>,
                                                             mindifframerate := framerate,
                                                             minimgmode := mode_id m,
                                                             minimgsize := (w, h),
                                                             minpacket_size := packet_size\<rparr>)
                                                 else ret st1))))))))"

fun f7_loop :: "capdev \<Rightarrow> rat \<Rightarrow> rat \<Rightarrow> f7_state \<Rightarrow> mode_caps list \<Rightarrow> f7_state outcome" where
  "f7_loop c capturerate bus_period st [] = ret st"
| "f7_loop c capturerate bus_period st (m # ms) =
     and_then (f7_probe c capturerate bus_period st m)
       (\<lambda>st'. f7_loop c capturerate bus_period st' ms)"

definition f7_init :: f7_state where
  "f7_init = \<lparr>mindiff = 1000000, mindifframerate = 0, minpacket_size = 0,
              minimgmode = DC1394_VIDEO_MODE_MIN, minimgsize = (0, 0), numF7Available = 0\<rparr>"

text \<open>
  \<open>PsychVideoFindFormat7Mode\<close>: the packet size it returns (0 when no Format-7 mode was
  chosen), the updated device record and the messages printed.
\<close>

definition PsychVideoFindFormat7Mode ::
  "capdev \<Rightarrow> rat \<Rightarrow> (int \<times> capdev \<times> message list) exit option" where
  "PsychVideoFindFormat7Mode c capturerate =
     (case cam c of
        None \<Rightarrow> fail (Undefined_behaviour ''capdev->camera is NULL'', c)
      | Some k \<Rightarrow>
          (case iso_speed k of
             None \<Rightarrow> fail (PsychError_user ''Unable to query bus-speed - Start of video capture failed!'', c)
           | Some speed0 \<Rightarrow>
               (let speed = (if strstr (vendor k) ''Unibrain'' \<noteq> None \<and>
                                strstr (model_name k) ''Fire-i'' \<noteq> None
                             then DC1394_ISO_SPEED_400 else speed0)
                in case bus_period_of speed of
                     None \<Rightarrow> fail (PsychError_user ''Unknown bus speed specification! Start of video capture failed!'', c)
                   | Some bus_period \<Rightarrow>
                       and_then (exit_at c (f7_loop c capturerate bus_period f7_init (video_modes k)))
                         (\<lambda>st.
                            if minimgmode st = DC1394_VIDEO_MODE_MIN \<or> numF7Available st = 0
                            then ret (0, c,
                                   [if numF7Available st > 0 then Info_no_matching_format7_mode
                                    else Info_no_format7_modes,
                                    Info_trying_non_format7])
                            else
                              (case find_mode k (minimgmode st) of
                                 None \<Rightarrow> fail (Undefined_behaviour ''colour coding of an unknown mode'', c)
                               | Some m \<Rightarrow>
                                   (case reconcile_layers
                                           (c\<lparr>dc_imageformat := minimgmode st,
                                              dc_framerate := DC1394_FRAMERATE_MIN\<rparr>)
                                           (color_code m) of
                                      Inl e \<Rightarrow> fail e
                                    | Inr c1 \<Rightarrow>
                                        (let c2 = c1\<lparr>roi := (roi c1)
                                                      \<lparr>kPsychRight := kPsychLeft (roi c1) + of_int (fst (minimgsize st)),
                                                       kPsychBottom := kPsychTop (roi c1) + of_int (snd (minimgsize st))\<rparr>\<rparr>;
                                             msgs = (if mindiff st < 1 / 2 \<or> capturerate = DBL_MAX then []
                                                     else if mindifframerate st < capturerate
                                                     then [Warning_framerate_not_supported capturerate (mindifframerate st)]
                                                     else [])
                                         in ret (minpacket_size st, c2\<lparr>fps := mindifframerate st\<rparr>, msgs))))))))"

section \<open>Starting and stopping capture\<close>

text \<open>
  The surroundings of one capture device: whether each command to the camera succeeds,
  the two conversions of libdc1394 (the converted image, or \<open>None\<close> on failure), and
  the host services (the handle the encoder returns for a new movie file, -1 on
  failure; the return codes of thread creation and of the wait on the condition
  variable; whether the movie file can be finalised; the verbosity preference).
\<close>

datatype camera_cmd =
    Set_iso_speed
  | Set_mode
  | Set_framerate
  | Format7_set_roi
  | Capture_setup
  | Set_broadcast
  | Trigger_power_off
  | Trigger_power_on
  | Transmission_on
  | Transmission_off
  | Slave_transmission_on
  | Slave_transmission_off
  | Capture_enqueue

record env =
  cmd_ok :: "camera_cmd \<Rightarrow> bool"
  debayer_frames :: "video_frame \<Rightarrow> int \<Rightarrow> 16 word list option"
  convert_frames :: "video_frame \<Rightarrow> 16 word list option"
  new_movie_handle :: int
  create_thread_rc :: int
  wait_condition_rc :: int
  finalize_movie_ok :: bool
  verbosity :: int
  soft_synced_slaves :: bool

definition zero_frame :: video_frame where
  "zero_frame = \<lparr>image = [], frames_behind = 0, timestamp = 0, color_filter = 0\<rparr>"

text \<open>
  The test in \<open>PsychDCVideoCaptureRate\<close> that sends the request to the Format-7
  selector first: Format-7 is preferred, or the ROI or the rate is none of the
  standard ones.
\<close>

definition try_format7_first :: "capdev \<Rightarrow> rat \<Rightarrow> bool" where
  "try_format7_first c capturerate =
     (let w = trunc_rat (PsychGetWidthFromRect (roi c));
          h = trunc_rat (PsychGetHeightFromRect (roi c))
      in specialFlags c AND 1 \<noteq> 0 \<or>
         \<not> ((kPsychLeft (roi c) = 0 \<and> kPsychTop (roi c) = 0) \<and>
            ((kPsychRight (roi c) = 1 \<and> kPsychBottom (roi c) = 1) \<or> (w = 640 \<and> h = 480) \<or>
             (w = 800 \<and> h = 600) \<or> (w = 1024 \<and> h = 768) \<or> (w = 1280 \<and> h = 960) \<or>
             (w = 1600 \<and> h = 1200) \<or> (w = 320 \<and> h = 240) \<or> (w = 160 \<and> h = 120)) \<and>
            (capturerate = 15 / 8 \<or> capturerate = 15 / 4 \<or> capturerate = 15 / 2 \<or>
             capturerate = 15 \<or> capturerate = 30 \<or> capturerate = 60 \<or> capturerate = 120 \<or>
             capturerate = 240)))"

text \<open>The choice of the mode: the packet size (0 for a fixed mode), the record, the messages.\<close>

definition select_mode :: "capdev \<Rightarrow> rat \<Rightarrow> (int \<times> capdev \<times> message list) exit option" where
  "select_mode c capturerate =
     (if try_format7_first c capturerate then
        and_then (PsychVideoFindFormat7Mode c capturerate)
          (\<lambda>(packetsize, c1, msgs).
             if packetsize = 0 then
               (case PsychVideoFindNonFormat7Mode c1 capturerate of
                  Inl e \<Rightarrow> fail e
                | Inr (c2, msgs2) \<Rightarrow> ret (0, c2, msgs @ msgs2))
             else ret (packetsize, c1, msgs))
      else
        (case PsychVideoFindNonFormat7Mode c capturerate of
           Inl e \<Rightarrow> fail e
         | Inr (c1, msgs) \<Rightarrow> ret (0, c1, msgs)))"

text \<open>
  The programming of the camera for the chosen mode (speed, mode, framerate and, for a
  Format-7 mode, the ROI): the first error exit, if any.
\<close>

definition setup_capture :: "env \<Rightarrow> int \<Rightarrow> psych_error option" where
  "setup_capture e packetsize =
     (if \<not> cmd_ok e Set_iso_speed
      then Some (PsychError_user ''Unable to setup and start capture engine: Setting ISO speed failed!'')
      else if \<not> cmd_ok e Set_mode
      then Some (PsychError_user ''Unable to setup and start capture engine: Setting mode failed!'')
      else if \<not> cmd_ok e Set_framerate
      then Some (PsychError_user ''Unable to setup and start capture engine: Setting fixed framerate failed!'')
      else if packetsize > 0 \<and> \<not> cmd_ok e Format7_set_roi
      then Some (PsychError_user ''Unable to setup and start capture engine: Setting Format7 ROI failed!'')
      else None)"

text \<open>
  \<open>PsychDCEnableBusBroadcast\<close>: only the sync master switches its broadcast; the result
  says whether the call returns.
\<close>

definition PsychDCEnableBusBroadcast :: "env \<Rightarrow> capdev \<Rightarrow> bool" where
  "PsychDCEnableBusBroadcast e c =
     (if syncmode c AND kPsychIsSyncMaster \<noteq> 0 then cmd_ok e Set_broadcast else True)"

definition broadcast_error :: psych_error where
  "broadcast_error =
     PsychError_user ''Unable to control bus broadcast for master camera for bus sync - Operation aborted!''"

text \<open>The start of the transmission according to the sync role: the first error exit, if any.\<close>

definition start_transmission :: "env \<Rightarrow> capdev \<Rightarrow> psych_error option" where
  "start_transmission e c =
     (if syncmode c AND kPsychIsBusSynced \<noteq> 0 \<and> \<not> PsychDCEnableBusBroadcast e c
      then Some broadcast_error
      else if (syncmode c AND kPsychIsSyncSlave = 0 \<or> syncmode c AND kPsychIsHwSynced \<noteq> 0) \<and>
              syncmode c AND kPsychIsHwSynced \<noteq> 0 \<and> \<not> cmd_ok e Trigger_power_off
      then Some (PsychError_user ''Unable to disable trigger reception on camera - Phase I - Start of video capture failed!'')
      else if (syncmode c AND kPsychIsSyncSlave = 0 \<or> syncmode c AND kPsychIsHwSynced \<noteq> 0) \<and>
              syncmode c AND kPsychIsHwSynced \<noteq> 0 \<and> syncmode c AND kPsychIsSyncSlave \<noteq> 0 \<and>
              \<not> cmd_ok e Trigger_power_on
      then Some (PsychError_user ''Unable to enable trigger reception on slave camera - Phase II - Start of video capture failed!'')
      else if (syncmode c AND kPsychIsSyncSlave = 0 \<or> syncmode c AND kPsychIsHwSynced \<noteq> 0) \<and>
              \<not> cmd_ok e Transmission_on
      then Some (PsychError_user ''Unable to start isochronous data transfer from camera - Start of video capture failed!'')
      else if (syncmode c AND kPsychIsSyncSlave = 0 \<or> syncmode c AND kPsychIsHwSynced \<noteq> 0) \<and>
              syncmode c AND kPsychIsSoftSynced \<noteq> 0 \<and> syncmode c AND kPsychIsSyncMaster \<noteq> 0 \<and>
              soft_synced_slaves e \<and> \<not> cmd_ok e Slave_transmission_on
      then Some (PsychError_user ''Unable to start isochronous data transfer of soft-synced slave camera - Start of sync video capture failed!'')
      else if syncmode c AND kPsychIsBusSynced \<noteq> 0 \<and> \<not> PsychDCEnableBusBroadcast e c
      then Some broadcast_error
      else None)"

text \<open>
  The end of a start, once the camera transmits: the framerate (held in a \<open>float\<close>),
  the image size, the active flag, the true bit depth of the mode, the scratch frame
  for the colour conversion, the movie file and the recorder thread. The two error
  exits come after \<open>grabber_active\<close> is set and the scratch frame is allocated.
\<close>

definition finish_start :: "env \<Rightarrow> camera \<Rightarrow> int \<Rightarrow> dc1394color_coding \<Rightarrow> capdev \<Rightarrow> capdev exit" where
  "finish_start e k packetsize cc c =
     (let framerate = (if packetsize = 0 then dc1394_framerate_as_float (dc_framerate c)
                       else to_float (fps c));
          c1 = c\<lparr>fps := framerate,
                 width := trunc_rat (PsychGetWidthFromRect (roi c)),
                 height := trunc_rat (PsychGetHeightFromRect (roi c)),
                 grabber_active := 1\<rparr>;
          c2 = (case video_data_depth k of
                  None \<Rightarrow> c1
                | Some depth \<Rightarrow> c1\<lparr>bitdepth := s32 depth\<rparr>);
          c3 = (if actuallayers c2 = 3 \<and> cc \<noteq> DC1394_COLOR_CODING_RGB8 \<and>
                   cc \<noteq> DC1394_COLOR_CODING_RGB16
                then c2\<lparr>convframe := Some zero_frame\<rparr> else c2)
      in if recording_active c3 then
           (let c4 = c3\<lparr>moviehandle := new_movie_handle e\<rparr>
            in if moviehandle c4 = -1
               then Inl (PsychError_user ''Setup of video recording failed.'', c4)
               else if recordingflags c4 AND 16 \<noteq> 0 then
                 (let c5 = c4\<lparr>frameAvail := 0\<rparr>
                  in if create_thread_rc e \<noteq> 0
                     then Inl (PsychError_system ''Thread creation for video recording failed!'', c5)
                     else Inr (c5\<lparr>recorderThread :=
                                    Some \<lparr>schedulingPolicy = 2, priorityTweak = 1, running = True\<rparr>\<rparr>))
               else Inr c4)
         else Inr c3)"

text \<open>The stop of the transmission according to the sync role: the first error exit, if any.\<close>

definition stop_transmission :: "env \<Rightarrow> capdev \<Rightarrow> psych_error option" where
  "stop_transmission e c =
     (if syncmode c AND kPsychIsBusSynced \<noteq> 0 \<and> \<not> PsychDCEnableBusBroadcast e c
      then Some broadcast_error
      else if (syncmode c AND kPsychIsSyncSlave = 0 \<or> syncmode c AND kPsychIsHwSynced \<noteq> 0) \<and>
              \<not> cmd_ok e Transmission_off
      then Some (PsychError_user ''Unable to stop isochronous data transfer from camera - Stop of video capture failed!'')
      else if (syncmode c AND kPsychIsSyncSlave = 0 \<or> syncmode c AND kPsychIsHwSynced \<noteq> 0) \<and>
              syncmode c AND kPsychIsSoftSynced \<noteq> 0 \<and> syncmode c AND kPsychIsSyncMaster \<noteq> 0 \<and>
              soft_synced_slaves e \<and> \<not> cmd_ok e Slave_transmission_off
      then Some (PsychError_user ''Unable to stop isochronous data transfer of soft-synced slave camera - Stop of sync video capture failed!'')
      else if syncmode c AND kPsychIsBusSynced \<noteq> 0 \<and> \<not> PsychDCEnableBusBroadcast e c
      then Some broadcast_error
      else None)"

text \<open>
  The stop branch of \<open>PsychDCVideoCaptureRate\<close> on a running device: the record and the
  count of dropped frames it reports (read only at a verbosity above 2). The recorder
  thread that is joined leaves its loop because \<open>grabber_active\<close> is clear, and clears
  \<open>frame_ready\<close> on its way out. The error exit on a movie file that cannot be finalised
  comes after \<open>grabber_active\<close> is cleared and before the scratch frame is released.
\<close>

definition stop_capture :: "env \<Rightarrow> capdev \<Rightarrow> (int \<times> capdev) exit" where
  "stop_capture e c =
     (case stop_transmission e c of
        Some err \<Rightarrow> Inl (err, c)
      | None \<Rightarrow>
          (let c1 = c\<lparr>grabber_active := 0\<rparr>;
               stopped =
                 (if recording_active c1 \<and> moviehandle c1 > -1 then
                    (let c2 = (if recordingflags c1 AND 16 \<noteq> 0
                               then (if recorderThread c1 = None then c1 else c1\<lparr>frame_ready := 0\<rparr>)
                                      \<lparr>recorderThread := None, frameAvail := 0\<rparr>
                               else c1)
                     in if \<not> finalize_movie_ok e
                        then Inl (PsychError_user ''Stop of video recording failed.'',
                                  c2\<lparr>moviehandle := -1\<rparr>)
                        else Inr (c2\<lparr>moviehandle := -1\<rparr>))
                  else Inr c1)
           in case stopped of
                Inl x \<Rightarrow> Inl x
              | Inr c3 \<Rightarrow>
                  Inr (if verbosity e > 2 then nr_droppedframes c3 else 0,
                       c3\<lparr>convframe := None, current_frame := None, frame_ready := 0\<rparr>)))"

text \<open>
  \<open>PsychDCVideoCaptureRate\<close>: a positive rate starts capture, any other rate stops it.
  The result is the value returned, the record and the messages printed, or the error
  exit with the record as it is at that point of the function. The waiting for the
  start deadline and the timing statistics are not modelled.
\<close>

definition PsychDCVideoCaptureRate ::
  "env \<Rightarrow> capdev \<Rightarrow> rat \<Rightarrow> int \<Rightarrow> (int \<times> capdev \<times> message list) exit option" where
  "PsychDCVideoCaptureRate e c capturerate dropframes_req =
     (if capturerate > 0 then
        (if grabber_active c \<noteq> 0
         then fail (PsychError_user ''You tried to start video capture, but capture is already started!'', c)
         else
           and_then (select_mode (c\<lparr>nr_droppedframes := 0, frame_ready := 0\<rparr>) capturerate)
             (\<lambda>(packetsize, c1, msgs).
                case cam c1 of
                  None \<Rightarrow> fail (Undefined_behaviour ''capdev->camera is NULL'', c1)
                | Some k \<Rightarrow>
                    if iso_speed k = None
                    then fail (PsychError_user ''Unable to query bus-speed - Start of video capture failed!'', c1)
                    else
                      (case find_mode k (dc_imageformat c1) of
                         None \<Rightarrow> fail (Undefined_behaviour ''colour coding of an unknown mode'', c1)
                       | Some m \<Rightarrow>
                           (let c2 = c1\<lparr>colormode := color_code m\<rparr>
                            in case setup_capture e packetsize of
                                 Some err \<Rightarrow> fail (err, c2)
                               | None \<Rightarrow>
                                   (let c3 = c2\<lparr>dropframes := (if dropframes_req > 0 then 1 else 0)\<rparr>
                                    in if \<not> cmd_ok e Capture_setup
                                       then fail (PsychError_system ''Unable to setup and start DMA capture engine - Start of video capture failed!'', c3)
                                       else
                                         (case start_transmission e c3 of
                                            Some err \<Rightarrow> fail (err, c3)
                                          | None \<Rightarrow>
                                              (case finish_start e k packetsize (color_code m) c3 of
                                                 Inl x \<Rightarrow> fail x
                                               | Inr c4 \<Rightarrow>
                                                   ret (trunc_rat (to_double (fps c4 + 1 / 2)),
                                                        c4\<lparr>nrframes := 0, nrgfxframes := 0\<rparr>,
                                                        msgs))))))))
      else
        (if grabber_active c \<noteq> 0 then
           (case stop_capture e c of
              Inl x \<Rightarrow> fail x
            | Inr (dropped, c1) \<Rightarrow>
                ret (if capturerate \<noteq> 0 then trunc_rat (to_double (fps c1 + 1 / 2)) else dropped,
                     c1\<lparr>nrframes := 0, nrgfxframes := 0\<rparr>, []))
         else
           ret (if capturerate \<noteq> 0 then trunc_rat (to_double (fps c + 1 / 2)) else 0,
                c\<lparr>nrframes := 0, nrgfxframes := 0\<rparr>, [])))"

subsection \<open>A sample environment\<close>

definition sample_env :: env where
  "sample_env = \<lparr>cmd_ok = (\<lambda>_. True), debayer_frames = (\<lambda>f m. Some (image f)),
     convert_frames = (\<lambda>f. Some (image f)), new_movie_handle = 0, create_thread_rc = 0,
     wait_condition_rc = 0, finalize_movie_ok = True, verbosity = 3,
     soft_synced_slaves = False\<rparr>"

lemmas start_defs = PsychDCVideoCaptureRate_def select_mode_def try_format7_first_def
  setup_capture_def start_transmission_def finish_start_def stop_capture_def
  stop_transmission_def and_then_def ret_def fail_def exit_at_def
  sync_consts zero_frame_def sample_env_def fp_defs

text \<open>
  A device opened for recording into a movie file, with the recorder thread
  (\<open>capdev_recording\<close>) and on the master thread (\<open>capdev_sync_recording\<close>).
\<close>

definition capdev_recording :: capdev where
  "capdev_recording = capdev_640x480\<lparr>recording_active := True,
     targetmoviefilename := Some ''movie.mov'', codecSpec := Some ''DEFAULTenc'',
     recordingflags := 16\<rparr>"

definition capdev_sync_recording :: capdev where
  "capdev_sync_recording = capdev_recording\<lparr>recordingflags := 0\<rparr>"

text \<open>The record that a call of \<open>PsychDCVideoCaptureRate\<close> on the device \<open>c\<close> leaves behind.\<close>

definition state_after :: "(int \<times> capdev \<times> message list) exit option \<Rightarrow> capdev \<Rightarrow> capdev" where
  "state_after r c =
     (case r of
        None \<Rightarrow> c
      | Some (Inl (err, c')) \<Rightarrow> c'
      | Some (Inr (v, c', msgs)) \<Rightarrow> c')"

subsection \<open>The scratch frame of the colour conversion\<close>

text \<open>
  A recording at 30 fps (in the YUV422 mode, with a scratch frame), a stop during which
  the movie file cannot be finalised, and a start at 15 fps (in the RGB8 mode); for
  comparison, the stop of the same recording when the movie file can be finalised.
\<close>

definition recorded_start :: "(int \<times> capdev \<times> message list) exit option" where
  "recorded_start = PsychDCVideoCaptureRate sample_env capdev_sync_recording 30 0"

definition failed_stop :: "(int \<times> capdev \<times> message list) exit option" where
  "failed_stop =
     PsychDCVideoCaptureRate (sample_env\<lparr>finalize_movie_ok := False\<rparr>)
       (state_after recorded_start capdev_sync_recording) 0 0"

definition clean_stop :: "(int \<times> capdev \<times> message list) exit option" where
  "clean_stop =
     PsychDCVideoCaptureRate sample_env (state_after recorded_start capdev_sync_recording) 0 0"

definition restart :: "(int \<times> capdev \<times> message list) exit option" where
  "restart =
     PsychDCVideoCaptureRate sample_env
       (state_after failed_stop (state_after recorded_start capdev_sync_recording)) 15 0"

lemmas restart_defs = recorded_start_def failed_stop_def clean_stop_def restart_def state_after_def
  capdev_sync_recording_def capdev_recording_def

text \<open>
  C7 at a stop that fails. The start allocates the scratch frame for the YUV422 mode,
  and a stop that returns releases it. The stop during which the movie file cannot be
  finalised clears \<open>grabber_active\<close> and leaves through the error exit for that
  failure, which lies before the release of the scratch frame: the
  device is stopped and the scratch frame is still allocated. The next start succeeds
  in the RGB8 mode, for which no scratch frame is to be allocated, and the device holds
  the scratch frame of the run before.
\<close>

theorem scratch_frame_survives_failed_stop:
  "map_option (map_sum (\<lambda>(err, c). (err, grabber_active c, convframe c))
                       (\<lambda>(r, c, msgs). (r, grabber_active c, actuallayers c, colormode c, convframe c)))
     recorded_start = Some (Inr (30, 1, 3, DC1394_COLOR_CODING_YUV422, Some zero_frame)) \<and>
   map_option (map_sum (\<lambda>(err, c). (err, grabber_active c, convframe c))
                       (\<lambda>(r, c, msgs). (r, grabber_active c, actuallayers c, colormode c, convframe c)))
     clean_stop = Some (Inr (0, 0, 3, DC1394_COLOR_CODING_YUV422, None)) \<and>
   map_option (map_sum (\<lambda>(err, c). (err, grabber_active c, convframe c))
                       (\<lambda>(r, c, msgs). (r, grabber_active c, actuallayers c, colormode c, convframe c)))
     failed_stop = Some (Inl (PsychError_user ''Stop of video recording failed.'', 0, Some zero_frame)) \<and>
   map_option (map_sum (\<lambda>(err, c). (err, grabber_active c, convframe c))
                       (\<lambda>(r, c, msgs). (r, grabber_active c, actuallayers c, colormode c, convframe c)))
     restart = Some (Inr (15, 1, 3, DC1394_COLOR_CODING_RGB8, Some zero_frame))"
  by (simp add: restart_defs start_defs fixture_defs nf7_defs DBL_MAX_def)

section \<open>Frames: the encoder, post-processing and the recorder thread\<close>

text \<open>
  Modelled from the spec: the encoder sink, whose code (\<open>PsychGetVideoFrameForMoviePtr\<close>,
  \<open>PsychAddVideoFrameToMovie\<close>) is not part of the capture engine's source file. Its
  writable buffer has a geometry and may be unavailable; committing a frame may fail;
  \<open>encoded\<close> lists the frames committed so far, oldest first.
\<close>

record movie =
  twidth :: int
  theight :: int
  numChannels :: int
  movie_bitdepth :: int
  buffer_available :: bool
  add_frame_ok :: bool
  encoded :: "16 word list list"

text \<open>
  An image is the list of its samples, one per colour channel and pixel: bytes at 8 bpc,
  16 bit words above. The block that copies \<open>count\<close> bytes of an image, shifting each 16
  bit word to the left when the true bit depth is 9 to 15; it stands twice in the
  source, in \<open>PsychDCPushFrameToMovie\<close> and in the raw data branch of
  \<open>PsychDCGetTextureFromCapture\<close>. The shift is computed in \<open>int\<close> and stored in a 16 bit
  word. An image shorter than \<open>count\<close> bytes would be read past its end.
\<close>

definition shift_copy :: "int \<Rightarrow> int \<Rightarrow> 16 word list \<Rightarrow> 16 word list" where
  "shift_copy bd count input_image =
     (if bd > 8 \<and> bd < 16
      then map (\<lambda>x. push_bit (nat (16 - bd)) x) (take (nat (count div 2)) input_image)
      else take (nat (if bd > 8 then count div 2 else count)) input_image)"

definition frame_bytes :: "capdev \<Rightarrow> int \<Rightarrow> int \<Rightarrow> int" where
  "frame_bytes c w h =
     u32 (w * h * (if actuallayers c = 3 then 3 else 1) * (if bitdepth c > 8 then 2 else 1))"

text \<open>
  \<open>PsychDCPushFrameToMovie\<close>: whether the frame was added, and the encoder afterwards. On
  the master thread a failure is an error exit.
\<close>

definition push_failure :: "bool \<Rightarrow> movie \<Rightarrow> string \<Rightarrow> psych_error + (bool \<times> movie)" where
  "push_failure onMasterthread m msg =
     (if onMasterthread then Inl (PsychError_system msg) else Inr (False, m))"

definition PsychDCPushFrameToMovie ::
  "capdev \<Rightarrow> movie \<Rightarrow> 16 word list \<Rightarrow> bool \<Rightarrow> psych_error + (bool \<times> movie)" where
  "PsychDCPushFrameToMovie c m input_image onMasterthread =
     (if numChannels m \<noteq> u32 (actuallayers c) \<or>
         movie_bitdepth m \<noteq> (if bitdepth c > 8 then 16 else 8)
      then push_failure onMasterthread m
             ''Encoding current captured video frame failed. Video format mismatch.''
      else if twidth m \<noteq> u32 (width c) \<or> theight m > u32 (height c)
      then push_failure onMasterthread m
             ''Encoding current captured video frame failed. Video frame size mismatch.''
      else if buffer_available m then
        (let framepixels = shift_copy (bitdepth c) (frame_bytes c (twidth m) (theight m)) input_image
         in if \<not> add_frame_ok m
            then push_failure onMasterthread m
                   ''Encoding current captured video frame failed. Failed to add frame to pipeline.''
            else Inr (True, m\<lparr>encoded := encoded m @ [framepixels]\<rparr>))
      else push_failure onMasterthread m
             ''Encoding current captured video frame failed. No videobuffer available.'')"

definition DC1394_COLOR_FILTER_MIN :: int where
  "DC1394_COLOR_FILTER_MIN = 512"

definition DC1394_COLOR_FILTER_MAX :: int where
  "DC1394_COLOR_FILTER_MAX = 515"

text \<open>
  \<open>PsychDCPreprocessFrame\<close>: the image to use (\<open>None\<close> is the \<open>NULL\<close> of a failed
  conversion) and the record, whose scratch frame holds the converted image.
\<close>

definition PsychDCPreprocessFrame ::
  "env \<Rightarrow> capdev \<Rightarrow> psych_error + (16 word list option \<times> capdev)" where
  "PsychDCPreprocessFrame e c =
     (case frame c of
        None \<Rightarrow> Inl (Undefined_behaviour ''capdev->frame is NULL'')
      | Some f \<Rightarrow>
          (case convframe c of
             None \<Rightarrow> Inr (Some (image f), c)
           | Some cf \<Rightarrow>
               if colormode c = DC1394_COLOR_CODING_RAW8 \<or> colormode c = DC1394_COLOR_CODING_MONO8 \<or>
                  colormode c = DC1394_COLOR_CODING_RAW16 \<or> colormode c = DC1394_COLOR_CODING_MONO16
               then
                 (let f1 = (if color_filter f < DC1394_COLOR_FILTER_MIN \<or>
                               color_filter f > DC1394_COLOR_FILTER_MAX
                            then f\<lparr>color_filter := color_filter_override c\<rparr> else f);
                      c1 = c\<lparr>frame := Some f1\<rparr>
                  in case debayer_frames e f1 (debayer_method c) of
                       None \<Rightarrow> Inr (None, c1)
                     | Some img \<Rightarrow> Inr (Some img, c1\<lparr>convframe := Some (cf\<lparr>image := img\<rparr>)\<rparr>))
               else
                 (case convert_frames e f of
                    None \<Rightarrow> Inr (None, c)
                  | Some img \<Rightarrow> Inr (Some img, c\<lparr>convframe := Some (cf\<lparr>image := img\<rparr>)\<rparr>))))"

text \<open>
  The outcomes of \<open>dc1394_capture_dequeue\<close>, one per call, in the order of the calls:
  a failure, success without a frame, or a frame of the DMA ring. When the list is
  used up no further frame arrives: a poll finds none, a blocking call never returns.
\<close>

datatype deq = DeqFail | DeqNone | DeqFrame video_frame

datatype thread_state = Running | Exited

text \<open>
  One turn of the loop of \<open>PsychDCRecorderThreadMain\<close> on an active device, after the
  poll with outcome \<open>d\<close>; the turn runs under the mutex. The result says whether the
  loop goes on, whether the condition variable was signalled, and gives the record and
  the encoder.
\<close>

definition recorder_iteration ::
  "env \<Rightarrow> capdev \<Rightarrow> movie \<Rightarrow> deq \<Rightarrow> thread_state \<times> bool \<times> capdev \<times> movie" where
  "recorder_iteration e c m d =
     (case d of
        DeqFail \<Rightarrow> (Exited, False, c, m)
      | DeqNone \<Rightarrow> (Running, False, c\<lparr>frame := None\<rparr>, m)
      | DeqFrame f \<Rightarrow>
          (let c1 = c\<lparr>frame := Some f, frame_ready := 1,
                       current_dropped := s32 (frames_behind f),
                       framecounter := framecounter c + 1, nrframes := nrframes c + 1\<rparr>
           in case PsychDCPreprocessFrame e c1 of
                Inl err \<Rightarrow> (Exited, False, c1, m)
              | Inr (None, c2) \<Rightarrow> (Exited, False, c2, m)
              | Inr (Some input_image, c2) \<Rightarrow>
                  (case (if recording_active c2 \<and> moviehandle c2 \<noteq> -1 \<and>
                            recordingflags c2 AND 16 \<noteq> 0
                         then PsychDCPushFrameToMovie c2 m input_image False
                         else Inr (True, m)) of
                     Inl err \<Rightarrow> (Exited, False, c2, m)
                   | Inr (False, m1) \<Rightarrow> (Exited, False, c2, m1)
                   | Inr (True, m1) \<Rightarrow>
                       (let deliver = (recordingflags c2 AND 4 = 0);
                            c3 = (if deliver then
                                    (if dropframes c2 \<noteq> 0
                                     then c2\<lparr>current_frame :=
                                              Some (take (nat (if bitdepth c2 > 8
                                                               then frame_bytes c2 (width c2) (height c2) div 2
                                                               else frame_bytes c2 (width c2) (height c2)))
                                                      input_image)\<rparr>
                                     else c2)\<lparr>frameAvail := frameAvail c2 + 1\<rparr>
                                  else c2)
                        in if \<not> cmd_ok e Capture_enqueue then (Exited, deliver, c3, m1)
                           else (Running, deliver, c3, m1)))))"

text \<open>
  The end of the thread function: it clears \<open>frame_ready\<close> and returns, so that the thread
  behind the handle no longer runs.
\<close>

definition recorder_exit :: "capdev \<Rightarrow> capdev" where
  "recorder_exit c =
     c\<lparr>frame_ready := 0,
       recorderThread := map_option (\<lambda>t. t\<lparr>running := False\<rparr>) (recorderThread c)\<rparr>"


text \<open>Whether the device has a recorder thread whose thread function is running.\<close>

definition recorder_running :: "capdev \<Rightarrow> bool" where
  "recorder_running c = (case recorderThread c of None \<Rightarrow> False | Some t \<Rightarrow> running t)"

text \<open>
  \<open>PsychWaitCondition\<close> on the master thread, which only waits: if a recorder thread
  runs, it runs until one of its turns signals the condition. \<open>None\<close>: the wait of the
  master thread never ends. This is so when there is no recorder thread or it has
  returned, and also when the recorder thread leaves its loop, even in a turn that has
  signalled: it clears \<open>frame_ready\<close> under the same lock, so that the master thread, once
  woken, waits again for a signal that no thread sends.
\<close>

fun wait_for_signal :: "env \<Rightarrow> capdev \<Rightarrow> movie \<Rightarrow> deq list \<Rightarrow> (capdev \<times> movie \<times> deq list) option" where
  "wait_for_signal e c m [] = None"
| "wait_for_signal e c m (d # ds) =
     (if \<not> recorder_running c then None
      else if grabber_active c = 0 then None
      else
        (case recorder_iteration e c m d of
           (Exited, signalled, c1, m1) \<Rightarrow> None
         | (Running, signalled, c1, m1) \<Rightarrow>
             (if signalled then Some (c1, m1, ds) else wait_for_signal e c1 m1 ds)))"

section \<open>Fetching images\<close>

record rawcapimgdata =
  raw_w :: int
  raw_h :: int
  raw_depth :: int
  raw_bitdepth :: int
  raw_data :: "16 word list"

definition raw_header :: "capdev \<Rightarrow> rawcapimgdata \<Rightarrow> rawcapimgdata" where
  "raw_header c r = r\<lparr>raw_w := width c, raw_h := height c,
     raw_depth := (if actuallayers c = 3 then 3 else 1),
     raw_bitdepth := (if bitdepth c > 8 then 16 else 8)\<rparr>"

text \<open>The raw data branch: the header again, and the copy of the image.\<close>

definition raw_output :: "capdev \<Rightarrow> 16 word list \<Rightarrow> rawcapimgdata \<Rightarrow> rawcapimgdata" where
  "raw_output c input_image r =
     (let r1 = raw_header c r;
          count = u32 (width c * height c * raw_depth r1 * (raw_bitdepth r1 div 8))
      in r1\<lparr>raw_data := shift_copy (bitdepth c) count input_image\<rparr>)"

text \<open>A dequeue that blocks until a frame arrives or the call fails.\<close>

fun dequeue_wait :: "deq list \<Rightarrow> (deq \<times> deq list) option" where
  "dequeue_wait [] = None"
| "dequeue_wait (DeqNone # ds) = dequeue_wait ds"
| "dequeue_wait (d # ds) = Some (d, ds)"

text \<open>
  The loop that discards all queued frames but the newest when \<open>dropframes\<close> is set:
  the frame in hand is given back and the next one polled, as long as the frame in
  hand reports frames behind it.
\<close>

definition drop_error :: psych_error where
  "drop_error = PsychError_system ''Polling for new video frame failed while dropping frames (dropframes=1)!!!''"

fun drop_to_newest ::
  "env \<Rightarrow> capdev \<Rightarrow> video_frame \<Rightarrow> deq list \<Rightarrow> psych_error + (capdev \<times> video_frame \<times> deq list)" where
  "drop_to_newest e c f [] =
     (if dropframes c \<noteq> 0 \<and> s32 (frames_behind f) > 0 then
        (if \<not> cmd_ok e Capture_enqueue
         then Inl (PsychError_system ''Requeuing of discarded video frame failed while dropping frames (dropframes=1)!!!'')
         else Inl drop_error)
      else Inr (c, f, []))"
| "drop_to_newest e c f (d # ds) =
     (if dropframes c \<noteq> 0 \<and> s32 (frames_behind f) > 0 then
        (if \<not> cmd_ok e Capture_enqueue
         then Inl (PsychError_system ''Requeuing of discarded video frame failed while dropping frames (dropframes=1)!!!'')
         else
           (case d of
              DeqFrame f' \<Rightarrow> drop_to_newest e (c\<lparr>framecounter := framecounter c + 1\<rparr>) f' ds
            | _ \<Rightarrow> Inl drop_error))
      else Inr (c, f, d # ds))"

text \<open>
  The probe for a new frame when the master thread itself captures (the async flag is
  clear): a blocking or a polling dequeue, then the drop loop and the counters.
\<close>

definition sync_probe :: "env \<Rightarrow> bool \<Rightarrow> capdev \<Rightarrow> deq list \<Rightarrow> (capdev \<times> deq list) outcome" where
  "sync_probe e waitforframe c dma =
     (let c1 = c\<lparr>current_dropped := 0\<rparr>
      in and_then
           (if waitforframe then
              (case dequeue_wait dma of
                 None \<Rightarrow> None
               | Some (DeqFrame f, rest) \<Rightarrow> ret (c1\<lparr>frame := Some f, frame_ready := 1\<rparr>, rest)
               | Some (_, rest) \<Rightarrow> fail (PsychError_system ''Blocking wait for new frame failed!!!''))
            else
              (case dma of
                 [] \<Rightarrow> ret (c1\<lparr>frame := None, frame_ready := 0\<rparr>, [])
               | DeqNone # rest \<Rightarrow> ret (c1\<lparr>frame := None, frame_ready := 0\<rparr>, rest)
               | DeqFrame f # rest \<Rightarrow> ret (c1\<lparr>frame := Some f, frame_ready := 1\<rparr>, rest)
               | DeqFail # rest \<Rightarrow> fail (PsychError_system ''Polling for new video frame failed!!!'')))
           (\<lambda>(c2, rest).
              and_then
                (if frame_ready c2 \<noteq> 0 then
                   (case frame c2 of
                      None \<Rightarrow> fail (Undefined_behaviour ''capdev->frame is NULL'')
                    | Some f \<Rightarrow>
                        (case drop_to_newest e (c2\<lparr>current_dropped := s32 (frames_behind f)\<rparr>) f rest of
                           Inl err \<Rightarrow> fail err
                         | Inr (c3, f', rest') \<Rightarrow>
                             ret (c3\<lparr>frame := Some f', nrframes := nrframes c3 + 1,
                                      framecounter := framecounter c3 + 1\<rparr>, rest')))
                 else ret (c2, rest))
                (\<lambda>(c4, rest'). ret (c4\<lparr>pulled_dropped := current_dropped c4\<rparr>, rest'))))"

lemma wait_for_signal_shorter:
  "wait_for_signal e c m ds = Some (c', m', ds') \<Longrightarrow> length ds' < length ds"
  by (induction ds arbitrary: c m)
     (fastforce split: if_splits prod.splits thread_state.splits)+

text \<open>
  The wait of the master thread for a frame of the recorder thread:
  \<open>while (!capdev->frame_ready) { if (!waitforframe) break; if (wait fails) break; }\<close>.
\<close>

function async_wait ::
  "env \<Rightarrow> bool \<Rightarrow> capdev \<Rightarrow> movie \<Rightarrow> deq list \<Rightarrow> (capdev \<times> movie \<times> deq list) option" where
  "async_wait e waitforframe c m dma =
     (if frame_ready c \<noteq> 0 then Some (c, m, dma)
      else if \<not> waitforframe then Some (c, m, dma)
      else if wait_condition_rc e \<noteq> 0 then Some (c, m, dma)
      else
        (case wait_for_signal e c m dma of
           None \<Rightarrow> None
         | Some (c', m', dma') \<Rightarrow> async_wait e waitforframe c' m' dma'))"
  by pat_completeness auto
termination
  by (relation "measure (\<lambda>(e, w, c, m, dma). length dma)")
     (auto dest: wait_for_signal_shorter)

declare async_wait.simps [simp del]

text \<open>The probe when the recorder thread captures (the async flag is set).\<close>

definition async_probe ::
  "env \<Rightarrow> bool \<Rightarrow> capdev \<Rightarrow> movie \<Rightarrow> deq list \<Rightarrow> (bool \<times> capdev \<times> movie \<times> deq list) option" where
  "async_probe e waitforframe c m dma =
     (if dropframes c \<noteq> 0 then
        (case async_wait e waitforframe c m dma of
           None \<Rightarrow> None
         | Some (c1, m1, dma1) \<Rightarrow>
             if frame_ready c1 \<noteq> 0
             then Some (True,
                        c1\<lparr>pulled_frame := current_frame c1, current_frame := None,
                           pulled_dropped := current_dropped c1, current_dropped := 0,
                           frame_ready := 0\<rparr>, m1, dma1)
             else Some (False, c1, m1, dma1))
      else Some (False, c, m, dma))"

text \<open>
  The commit of the probed frame (\<open>checkForImage == 0\<close>): the image is post-processed
  or taken from the recorder thread, copied out as raw data if asked for, pushed to the
  encoder when the master thread records, and given back to the DMA ring. The texture
  and the summed intensity are left out.
\<close>

definition commit_frame ::
  "env \<Rightarrow> capdev \<Rightarrow> movie \<Rightarrow> rawcapimgdata option \<Rightarrow>
   psych_error + (int \<times> capdev \<times> movie \<times> rawcapimgdata option)" where
  "commit_frame e c m outrawbuffer =
     (case (if recordingflags c AND 16 = 0 then
              (case PsychDCPreprocessFrame e c of
                 Inl err \<Rightarrow> Inl err
               | Inr (None, c1) \<Rightarrow>
                   Inl (PsychError_system ''Bayer filtering or color space conversion of video frame failed.'')
               | Inr (Some img, c1) \<Rightarrow> Inr (Some img, c1))
            else Inr (pulled_frame c, c)) of
        Inl err \<Rightarrow> Inl err
      | Inr (input_image, c1) \<Rightarrow>
          (case (case outrawbuffer of
                   None \<Rightarrow> Inr None
                 | Some r \<Rightarrow>
                     (case input_image of
                        None \<Rightarrow> Inl (Undefined_behaviour ''copy from a NULL image'')
                      | Some img \<Rightarrow> Inr (Some (raw_output c1 img r)))) of
             Inl err \<Rightarrow> Inl err
           | Inr raw \<Rightarrow>
               (case (if recording_active c1 \<and> moviehandle c1 \<noteq> -1 \<and> recordingflags c1 AND 16 = 0
                      then (case input_image of
                              None \<Rightarrow> Inl (Undefined_behaviour ''copy from a NULL image'')
                            | Some img \<Rightarrow> PsychDCPushFrameToMovie c1 m img True)
                      else Inr (True, m)) of
                  Inl err \<Rightarrow> Inl err
                | Inr (pushed, m1) \<Rightarrow>
                    if recordingflags c1 AND 16 = 0 \<and> \<not> cmd_ok e Capture_enqueue
                    then Inl (PsychError_system ''Re-Enqueuing processed video frame failed.'')
                    else
                      (let c2 = (if recordingflags c1 AND 16 = 0 then c1\<lparr>current_dropped := 0\<rparr> else c1);
                           c3 = c2\<lparr>pulled_frame := None,
                                   nr_droppedframes := nr_droppedframes c2 + pulled_dropped c2,
                                   nrgfxframes := nrgfxframes c2 + 1\<rparr>
                       in Inr (pulled_dropped c2, c3, m1, raw)))))"

text \<open>
  \<open>PsychDCGetTextureFromCapture\<close>: the value returned, the record, the encoder, the
  dequeue outcomes not yet used, and the raw buffer of the caller if there is one.
\<close>

definition PsychDCGetTextureFromCapture ::
  "env \<Rightarrow> capdev \<Rightarrow> movie \<Rightarrow> deq list \<Rightarrow> int \<Rightarrow> rawcapimgdata option \<Rightarrow>
   (int \<times> capdev \<times> movie \<times> deq list \<times> rawcapimgdata option) outcome" where
  "PsychDCGetTextureFromCapture e c m dma checkForImage outrawbuffer =
     (let raw0 = map_option (raw_header c) outrawbuffer;
          waitforframe = (checkForImage > 1)
      in if checkForImage = 4 then ret (0, c, m, dma, raw0)
         else if checkForImage \<noteq> 0 then
           (if grabber_active c = 0 then ret (-2, c, m, dma, raw0)
            else if recordingflags c AND 16 = 0 then
              and_then (sync_probe e waitforframe c dma)
                (\<lambda>(c1, dma1). ret (if frame_ready c1 \<noteq> 0 then 0 else -1, c1, m, dma1, raw0))
            else
              (case async_probe e waitforframe c m dma of
                 None \<Rightarrow> None
               | Some (ready, c1, m1, dma1) \<Rightarrow> ret (if ready then 0 else -1, c1, m1, dma1, raw0)))
         else
           (case commit_frame e c m raw0 of
              Inl err \<Rightarrow> fail err
            | Inr (nrdropped, c1, m1, raw) \<Rightarrow> ret (nrdropped, c1, m1, dma, raw)))"

section \<open>The bit depth shift of the raw and the movie output\<close>







section \<open>The values returned by a fetch\<close>

subsection \<open>The probes and the commit\<close>

















subsection \<open>Concrete frames and sessions\<close>

definition sample_movie :: movie where
  "sample_movie = \<lparr>twidth = 640, theight = 480, numChannels = 3, movie_bitdepth = 8,
     buffer_available = True, add_frame_ok = True, encoded = []\<rparr>"

definition frame_A :: video_frame where
  "frame_A = \<lparr>image = [1, 2, 3], frames_behind = 1, timestamp = 1000, color_filter = 0\<rparr>"

definition frame_B :: video_frame where
  "frame_B = \<lparr>image = [4, 5, 6], frames_behind = 0, timestamp = 2000, color_filter = 0\<rparr>"

text \<open>The device record after a start at 30 fps in the sample environment.\<close>

definition started :: "capdev \<Rightarrow> int \<Rightarrow> capdev" where
  "started c dropf =
     (case PsychDCVideoCaptureRate sample_env c 30 dropf of
        Some (Inr (r, c', msgs)) \<Rightarrow> c'
      | _ \<Rightarrow> c)"

lemmas frame_defs = PsychDCGetTextureFromCapture_def sync_probe_def async_probe_def
  commit_frame_def PsychDCPreprocessFrame_def PsychDCPushFrameToMovie_def push_failure_def
  recorder_iteration_def recorder_exit_def recorder_running_def shift_copy_def
  frame_bytes_def raw_header_def raw_output_def sample_movie_def frame_A_def frame_B_def
  async_wait.simps

lemmas session_defs = started_def start_defs capdev_recording_def fixture_defs nf7_defs
  DBL_MAX_def




section \<open>The frames that reach the encoder\<close>











lemma recorder_iteration_other:
  assumes it: "recorder_iteration e c m d = (Running, sig, c1, m1)"
    and nf: "\<forall>f. d \<noteq> DeqFrame f"
  shows "c1 = c\<lparr>frame := None\<rparr> \<and> m1 = m"
  using it nf unfolding recorder_iteration_def
  by (cases d) auto






















section \<open>The Format-7 selector at the fastest rate\<close>

text \<open>
  A request for a region of 64 by 48 pixels of luminance data. No fixed mode of the
  sample camera has that size; its Format-7 mode admits it.
\<close>

definition capdev_roi_64x48 :: capdev where
  "capdev_roi_64x48 = sample_capdev\<lparr>reqlayers := 1, roi := PsychMakeRect 0 0 64 48\<rparr>"

lemmas f7_defs = PsychVideoFindFormat7Mode_def f7_probe_def f7_setup_roi_def f7_num_packets_def
  f7_packet_size_def f7_frame_packets_def f7_framerate_def f7_init_def
  shrink_packet_size.simps DC1394_VIDEO_MODE_FORMAT7_MAX_def capdev_roi_64x48_def

text \<open>
  C1 at the target rate \<open>DBL_MAX\<close>, the documented request for the fastest rate. The bus
  period of the sample camera is the \<open>float\<close> next to 0.000125. At a target of 60 fps the
  selector keeps the Format-7 mode 88 with a packet size of 24 bytes and 62.499996 fps,
  and the start returns 62. At \<open>DBL_MAX\<close> the same mode is admissible (8 packets, a packet
  size of 3072 bytes, one packet per frame, 7999.9995 fps), but its distance to the
  target is not below the initial value 1000000 of \<open>mindiff\<close>, so no mode is kept: the
  selector returns the packet size 0, and the start of the capture fails because no
  fixed mode has the size of the region.
\<close>

theorem Format7_fastest_rate_keeps_no_mode:
  "bus_period_of DC1394_ISO_SPEED_400 = Some (8589935 / 68719476736) \<and>
   f7_num_packets (8589935 / 68719476736) DBL_MAX = Inr 8 \<and>
   f7_packet_size 64 48 8 8 4 8192 = ret 3072 \<and>
   f7_frame_packets 64 48 8 3072 = 1 \<and>
   f7_framerate (8589935 / 68719476736) 1 = Some (16383999 / 2048) \<and>
   PsychVideoFindFormat7Mode capdev_roi_64x48 DBL_MAX =
     ret (0, capdev_roi_64x48, [Info_no_matching_format7_mode, Info_trying_non_format7]) \<and>
   map_option (map_sum fst (\<lambda>(packet_size, c, msgs). (packet_size, dc_imageformat c, fps c, msgs)))
     (PsychVideoFindFormat7Mode capdev_roi_64x48 60) =
     Some (Inr (24, 88, 16383999 / 262144, [])) \<and>
   map_option (map_sum fst fst) (PsychDCVideoCaptureRate sample_env capdev_roi_64x48 60 0) =
     Some (Inr 62) \<and>
   map_option (map_sum fst fst) (PsychDCVideoCaptureRate sample_env capdev_roi_64x48 DBL_MAX 0) =
     Some (Inl (PsychError_user ''Couldn't find any capture mode settings for your camera which satisfy your minimum requirements! Aborted.''))"
proof (intro conjI)
  show "bus_period_of DC1394_ISO_SPEED_400 = Some (8589935 / 68719476736)"
    by (simp add: fp_defs)
  show "f7_num_packets (8589935 / 68719476736) DBL_MAX = Inr 8"
    by (simp add: f7_defs fp_defs trunc_rat_def DBL_MAX_def)
  show "f7_packet_size 64 48 8 8 4 8192 = ret 3072"
    by (simp add: f7_defs u32_def s32_def ret_def)
  show "f7_frame_packets 64 48 8 3072 = 1"
    by (simp add: f7_defs u32_def s32_def)
  show "f7_framerate (8589935 / 68719476736) 1 = Some (16383999 / 2048)"
    by (simp add: f7_defs fp_defs)
  show "PsychVideoFindFormat7Mode capdev_roi_64x48 DBL_MAX =
     ret (0, capdev_roi_64x48, [Info_no_matching_format7_mode, Info_trying_non_format7])"
    by (simp add: f7_defs start_defs fixture_defs nf7_defs DBL_MAX_def)
  show "map_option (map_sum fst (\<lambda>(packet_size, c, msgs). (packet_size, dc_imageformat c, fps c, msgs)))
     (PsychVideoFindFormat7Mode capdev_roi_64x48 60) =
     Some (Inr (24, 88, 16383999 / 262144, []))"
    by (simp add: f7_defs start_defs fixture_defs nf7_defs DBL_MAX_def)
  show "map_option (map_sum fst fst) (PsychDCVideoCaptureRate sample_env capdev_roi_64x48 60 0) =
     Some (Inr 62)"
    by (simp add: f7_defs start_defs fixture_defs nf7_defs DBL_MAX_def)
  show "map_option (map_sum fst fst) (PsychDCVideoCaptureRate sample_env capdev_roi_64x48 DBL_MAX 0) =
     Some (Inl (PsychError_user ''Couldn't find any capture mode settings for your camera which satisfy your minimum requirements! Aborted.''))"
    by (simp add: f7_defs start_defs fixture_defs nf7_defs DBL_MAX_def)
qed

section \<open>The async flag without a movie file\<close>

text \<open>
  A device opened with the flag for asynchronous recording (16) and without the name of
  a movie file: recording is not active.
\<close>

definition capdev_async_without_movie :: capdev where
  "capdev_async_without_movie = capdev_640x480\<lparr>recordingflags := 16\<rparr>"

text \<open>
  C8 on that device. On a device that records, the start creates the recorder thread
  and the stop joins and clears it. On the device without a movie file the start
  succeeds and leaves the device active without a recorder thread, because the thread
  is created only inside the branch for an active recording.
  Every fetch still takes the path of the recorder thread, which it chooses by the flag
  alone: with two frames waiting in the DMA ring a poll finds none and leaves the ring
  untouched, and a blocking wait never returns. (On the device that records, the same
  blocking wait returns 0 after the thread has encoded the first frame.) A start that
  fails in the creation of the thread leaves the device active without a thread as
  well.
\<close>

theorem async_flag_without_movie_never_delivers:
  "map_option (map_sum fst (\<lambda>(r, c, msgs). (grabber_active c, recorderThread c)))
     (PsychDCVideoCaptureRate sample_env capdev_recording 30 1) =
     Some (Inr (1, Some \<lparr>schedulingPolicy = 2, priorityTweak = 1, running = True\<rparr>)) \<and>
   map_option (map_sum fst (\<lambda>(r, c, msgs). (grabber_active c, recorderThread c)))
     (PsychDCVideoCaptureRate sample_env (started capdev_recording 1) 0 0) = Some (Inr (0, None)) \<and>
   map_option (map_sum fst (\<lambda>(r, c, msgs). (grabber_active c, recorderThread c)))
     (PsychDCVideoCaptureRate sample_env capdev_async_without_movie 30 1) = Some (Inr (1, None)) \<and>
   map_option (map_sum id (\<lambda>(rv, c, m, dma, raw). (rv, dma)))
     (PsychDCGetTextureFromCapture sample_env (started capdev_async_without_movie 1) sample_movie
        [DeqFrame frame_A, DeqFrame frame_B] 1 None) =
     Some (Inr (- 1, [DeqFrame frame_A, DeqFrame frame_B])) \<and>
   PsychDCGetTextureFromCapture sample_env (started capdev_async_without_movie 1) sample_movie
     [DeqFrame frame_A, DeqFrame frame_B] 2 None = None \<and>
   map_option (map_sum id (\<lambda>(rv, c, m, dma, raw). (rv, dma, encoded m)))
     (PsychDCGetTextureFromCapture sample_env (started capdev_recording 1) sample_movie
        [DeqFrame frame_A, DeqFrame frame_B] 2 None) =
     Some (Inr (0, [DeqFrame frame_B], [[1, 2, 3]])) \<and>
   map_option (map_sum (\<lambda>(err, c). (err, grabber_active c, recorderThread c)) fst)
     (PsychDCVideoCaptureRate (sample_env\<lparr>create_thread_rc := 11\<rparr>) capdev_recording 30 1) =
     Some (Inl (PsychError_system ''Thread creation for video recording failed!'', 1, None))"
  by (simp add: capdev_async_without_movie_def session_defs frame_defs)

end
